theory Spec2Isabelle
  imports Complex_Main
begin

section \<open>Values of the Python runtime\<close>

text \<open>
  Both adapters (\<^verbatim>\<open>piper-adapter/main.py\<close>, the text-to-speech service, and
  \<^verbatim>\<open>revai-adapter/main.py\<close>, the speech-to-text service) are embedded here.
  Strings are HOL strings holding ASCII text; byte strings are lists of characters.
  The input text of a speech request, whose characters the code inspects, is a list of
  Unicode code points.
  Log lines and the timing values that only feed them are left out.
\<close>

type_synonym bytes = "char list"

text \<open>
  What \<^verbatim>\<open>response.json()\<close> returns. A \<open>JObj\<close> is a parsed \<^verbatim>\<open>dict\<close>, its
  keys listed once each in insertion order; a number keeps its value only.
\<close>

datatype json =
    JNull
  | JBool bool
  | JNum rat
  | JStr string
  | JArr "json list"
  | JObj "(string \<times> json) list"

text \<open>
  The exceptions of the runtime and of the libraries that are not \<^verbatim>\<open>HTTPException\<close>
  or \<^verbatim>\<open>ValueError\<close>. \<open>KeyError\<close> carries the missing key; \<open>HTTPError\<close> stands for
  every failure of the HTTP transport (connection refused, timeout of a request).
\<close>

datatype py_exception =
    KeyError string
  | IndexError
  | TypeError
  | AttributeError
  | JSONDecodeError
  | UnicodeDecodeError
  | HTTPError string
  | OSError string
  | TimeoutExpired

text \<open>
  An f-string or \<^verbatim>\<open>str(e)\<close>, kept as its parts: the rendering of a value that is not
  a string is the interpreter's, and no modelled code looks into it.
\<close>

datatype fpart =
    Lit string
  | Fmt json
  | FmtExc py_exception

type_synonym fstring = "fpart list"

datatype error =
    HTTPException nat fstring
  | ValueError string
  | Raised py_exception

subsection \<open>Dynamic operations on parsed JSON\<close>

text \<open>\<^verbatim>\<open>d[k]\<close> with a string key: only a \<^verbatim>\<open>dict\<close> accepts it.\<close>

fun py_getitem :: "json \<Rightarrow> string \<Rightarrow> py_exception + json" where
  "py_getitem (JObj kv) k = (case map_of kv k of None \<Rightarrow> Inl (KeyError k) | Some v \<Rightarrow> Inr v)"
| "py_getitem _ k = Inl TypeError"

text \<open>\<^verbatim>\<open>d.get(k, default)\<close>: only a \<^verbatim>\<open>dict\<close> has the method.\<close>

fun py_get :: "json \<Rightarrow> string \<Rightarrow> json \<Rightarrow> py_exception + json" where
  "py_get (JObj kv) k dflt = Inr (case map_of kv k of None \<Rightarrow> dflt | Some v \<Rightarrow> v)"
| "py_get _ k dflt = Inl AttributeError"

text \<open>
  \<^verbatim>\<open>for x in v\<close>: a list yields its items, a string its characters, a \<^verbatim>\<open>dict\<close> its
  keys; nothing else is iterable.
\<close>

fun py_iter :: "json \<Rightarrow> py_exception + json list" where
  "py_iter (JArr xs) = Inr xs"
| "py_iter (JStr s) = Inr (map (\<lambda>c. JStr [c]) s)"
| "py_iter (JObj kv) = Inr (map (\<lambda>(k, v). JStr k) kv)"
| "py_iter _ = Inl TypeError"

text \<open>Truth value of a parsed value, as \<^verbatim>\<open>if v:\<close> tests it.\<close>

fun py_truthy :: "json \<Rightarrow> bool" where
  "py_truthy JNull = False"
| "py_truthy (JBool b) = b"
| "py_truthy (JNum n) = (n \<noteq> 0)"
| "py_truthy (JStr s) = (s \<noteq> [])"
| "py_truthy (JArr xs) = (xs \<noteq> [])"
| "py_truthy (JObj kv) = (kv \<noteq> [])"

text \<open>\<^verbatim>\<open>v[0]\<close>.\<close>

fun py_index0 :: "json \<Rightarrow> py_exception + json" where
  "py_index0 (JArr []) = Inl IndexError"
| "py_index0 (JArr (x # xs)) = Inr x"
| "py_index0 (JStr []) = Inl IndexError"
| "py_index0 (JStr (c # s)) = Inr (JStr [c])"
| "py_index0 (JObj kv) = Inl (KeyError ''0'')"
| "py_index0 _ = Inl TypeError"

text \<open>\<^verbatim>\<open>sep.join(items)\<close> of strings.\<close>

fun join_str :: "string \<Rightarrow> string list \<Rightarrow> string" where
  "join_str sep [] = []"
| "join_str sep [x] = x"
| "join_str sep (x # y # ys) = x @ sep @ join_str sep (y # ys)"

text \<open>\<^verbatim>\<open>sep.join(items)\<close> of parsed values: every item must be a string.\<close>

fun str_items :: "json list \<Rightarrow> py_exception + string list" where
  "str_items [] = Inr []"
| "str_items (JStr s # vs) = (case str_items vs of Inl e \<Rightarrow> Inl e | Inr ss \<Rightarrow> Inr (s # ss))"
| "str_items (_ # vs) = Inl TypeError"

definition py_join :: "string \<Rightarrow> json list \<Rightarrow> py_exception + json" where
  "py_join sep items = (case str_items items of Inl e \<Rightarrow> Inl e | Inr ss \<Rightarrow> Inr (JStr (join_str sep ss)))"

section \<open>The outside world\<close>

subsection \<open>Strings\<close>

text \<open>\<^verbatim>\<open>str.lower()\<close> on ASCII text: a character above 127 is not a capital letter here.\<close>

definition lower_char :: "char \<Rightarrow> char" where
  "lower_char c = (if 65 \<le> (of_char c :: int) \<and> (of_char c :: int) \<le> 90
                   then char_of ((of_char c :: int) + 32) else c)"

definition py_lower :: "string \<Rightarrow> string" where
  "py_lower s = map lower_char s"

text \<open>A Python \<^verbatim>\<open>str\<close> of any text: the list of its code points.\<close>

type_synonym unicode = "nat list"

text \<open>
  The code points for which \<^verbatim>\<open>str.isspace()\<close> holds, which are the ones that
  \<^verbatim>\<open>str.strip()\<close> removes: tab, line feed, vertical tab, form feed, carriage return,
  the separators U+001C to U+001F, the space, U+0085 (next line), U+00A0 (no-break
  space), U+1680, U+2000 to U+200A, U+2028, U+2029, U+202F, U+205F and U+3000.
\<close>

definition py_isspace :: "nat \<Rightarrow> bool" where
  "py_isspace c =
     ((0x09 \<le> c \<and> c \<le> 0x0D) \<or> (0x1C \<le> c \<and> c \<le> 0x20) \<or> c = 0x85 \<or> c = 0xA0
      \<or> c = 0x1680 \<or> (0x2000 \<le> c \<and> c \<le> 0x200A) \<or> c = 0x2028 \<or> c = 0x2029
      \<or> c = 0x202F \<or> c = 0x205F \<or> c = 0x3000)"

definition py_strip :: "unicode \<Rightarrow> unicode" where
  "py_strip s = rev (dropWhile py_isspace (rev (dropWhile py_isspace s)))"

subsection \<open>HTTP requests and responses\<close>

datatype http_method = GET | POST

text \<open>
  The body of a request as httpx takes it: \<^verbatim>\<open>json=\<close>, \<^verbatim>\<open>data=\<close> with \<^verbatim>\<open>files=\<close>
  (each file a field name with file name, bytes and content type), or \<^verbatim>\<open>content=\<close>.
  The one JSON body of the code is the submission to Replicate,
  \<^verbatim>\<open>{"version": v, "input": {"text": t, "voice": voice, "speed": s}}\<close>, kept as
  \<open>PredictionBody v t voice s\<close>.
\<close>

datatype http_body =
    NoBody
  | PredictionBody string unicode string rat
  | FormBody "(string \<times> json) list" "(string \<times> string \<times> bytes \<times> string) list"
  | ContentBody bytes

record http_request =
  req_method :: http_method
  req_url :: fstring
  req_headers :: "(string \<times> fstring) list"
  req_body :: http_body

text \<open>
  \<open>response_json\<close> is what \<^verbatim>\<open>response.json()\<close> returns, \<open>None\<close> when the body is not
  JSON and the call raises.
\<close>

record http_response =
  status_code :: nat
  response_text :: string
  response_content :: bytes
  response_json :: "json option"

subsection \<open>Effects\<close>

text \<open>
  What a call does to the outside, in order: a request handed to the HTTP client, a
  sleep (in seconds), a launch of a process (command line, and the text whose UTF-8
  encoding is meant for its standard input).
\<close>

datatype event =
    Send http_request
  | Sleep rat
  | Spawn "string list" unicode

text \<open>
  The file system holds regular files only: a path is mapped to the bytes of the file.
  Removing a file that exists succeeds.
\<close>

type_synonym filesystem = "string \<Rightarrow> bytes option"

text \<open>
  The state of the outside: the events so far, the files, and the processes that were
  started and then neither waited for nor killed, each as what it does to the files
  when it goes on running.
\<close>

record io =
  trace :: "event list"
  files :: filesystem
  running :: "(filesystem \<Rightarrow> filesystem) list"

text \<open>The files once every process that was left running has finished.\<close>

definition settle :: "io \<Rightarrow> io" where
  "settle st = st\<lparr>files := fold (\<lambda>process fs. process fs) (running st) (files st), running := []\<rparr>"

text \<open>
  What running the Piper executable does, as \<^verbatim>\<open>Popen\<close> and \<^verbatim>\<open>communicate\<close> see it:
  \<^verbatim>\<open>Popen\<close> raises; or the statement
  \<^verbatim>\<open>process.communicate(input=text.encode('utf-8'), timeout=120)\<close> raises (encoding
  error, \<^verbatim>\<open>TimeoutExpired\<close> after 120 s), with the files as they are then and what the
  process, which goes on running, does to the files afterwards; or the process exits.
\<close>

datatype proc_result =
    PopenRaised py_exception
  | CommunicateRaised py_exception filesystem "filesystem \<Rightarrow> filesystem"
  | Exited int bytes "string option" filesystem

text \<open>
  The host answers for everything the code does not decide: the environment
  variables, whether \<^verbatim>\<open>which piper\<close> finds the executable (its return code, \<open>None\<close>
  when running it raises), \<^verbatim>\<open>pathlib\<close>'s join as a string, the name that
  \<^verbatim>\<open>NamedTemporaryFile\<close> picks (or the exception it raises), the Piper process (for
  \<open>Exited\<close>: return code, standard output, \<^verbatim>\<open>stderr.decode()\<close> with \<open>None\<close> when the
  bytes do not decode, and the files as the process left them), and the backends,
  which answer a request knowing everything that happened before it.
\<close>

record host =
  environ :: "string \<Rightarrow> string option"
  which_piper :: "int option"
  path_join :: "string \<Rightarrow> string \<Rightarrow> string"
  named_temporary_file :: "filesystem \<Rightarrow> py_exception + string"
  piper_process :: "string list \<Rightarrow> unicode \<Rightarrow> filesystem \<Rightarrow> proc_result"
  network :: "event list \<Rightarrow> http_request \<Rightarrow> py_exception + http_response"

definition getenv :: "host \<Rightarrow> string \<Rightarrow> string \<Rightarrow> string" where
  "getenv h k dflt = (case environ h k of None \<Rightarrow> dflt | Some v \<Rightarrow> v)"

definition http_send :: "host \<Rightarrow> http_request \<Rightarrow> io \<Rightarrow> (py_exception + http_response) \<times> io" where
  "http_send h req st = (network h (trace st) req, st\<lparr>trace := trace st @ [Send req]\<rparr>)"

definition asyncio_sleep :: "rat \<Rightarrow> io \<Rightarrow> io" where
  "asyncio_sleep seconds st = st\<lparr>trace := trace st @ [Sleep seconds]\<rparr>"

text \<open>\<^verbatim>\<open>bool(token)\<close> of an optional string, and its place in an f-string.\<close>

definition py_bool_opt :: "string option \<Rightarrow> bool" where
  "py_bool_opt v = (case v of None \<Rightarrow> False | Some s \<Rightarrow> s \<noteq> [])"

definition fmt_opt :: "string option \<Rightarrow> fpart" where
  "fmt_opt v = (case v of None \<Rightarrow> Fmt JNull | Some s \<Rightarrow> Lit s)"

text \<open>\<^verbatim>\<open>v or default\<close> of an optional string.\<close>

definition or_default :: "string option \<Rightarrow> string \<Rightarrow> string" where
  "or_default v dflt = (case v of None \<Rightarrow> dflt | Some s \<Rightarrow> if s = [] then dflt else s)"

section \<open>Text to speech: \<^verbatim>\<open>piper-adapter/main.py\<close>\<close>

text \<open>
  \<^verbatim>\<open>class TTSProvider(ABC)\<close>: an object with a name, the \<^verbatim>\<open>is_configured\<close> property
  and \<^verbatim>\<open>synthesize\<close>. A call that never returns has the value \<open>None\<close>.
\<close>

record TTSProvider =
  tts_name :: string
  tts_is_configured :: "host \<Rightarrow> bool"
  tts_synthesize :: "host \<Rightarrow> unicode \<Rightarrow> string \<Rightarrow> rat \<Rightarrow> io \<Rightarrow> ((error + bytes) \<times> io) option"

subsection \<open>\<^verbatim>\<open>PiperProvider\<close>\<close>

record PiperProvider =
  piper_voices_dir :: string
  piper_default_voice :: string
  piper_voice_map :: "(string \<times> string) list"

definition PiperProvider_init :: "host \<Rightarrow> PiperProvider" where
  "PiperProvider_init h =
     \<lparr>piper_voices_dir = getenv h ''PIPER_VOICES_DIR'' ''/app/voices'',
      piper_default_voice = getenv h ''PIPER_DEFAULT_VOICE'' ''en_US-lessac-medium'',
      piper_voice_map =
        [(''alloy'', ''en_US-lessac-medium''),
         (''echo'', ''en_US-lessac-medium''),
         (''fable'', ''en_US-lessac-medium''),
         (''onyx'', ''en_US-lessac-medium''),
         (''nova'', ''en_US-lessac-medium''),
         (''shimmer'', ''en_US-lessac-medium'')]\<rparr>"

definition piper_is_configured :: "host \<Rightarrow> bool" where
  "piper_is_configured h = (case which_piper h of None \<Rightarrow> False | Some returncode \<Rightarrow> returncode = 0)"

text \<open>\<^verbatim>\<open>_get_voice_path\<close>: the pair of the model path and the Piper voice.\<close>

definition get_voice_path :: "host \<Rightarrow> PiperProvider \<Rightarrow> string \<Rightarrow> string \<times> string" where
  "get_voice_path h self voice_name =
     (let piper_voice = (case map_of (piper_voice_map self) (py_lower voice_name) of
                           None \<Rightarrow> voice_name | Some v \<Rightarrow> v);
          model_path = path_join h (piper_voices_dir self) (piper_voice @ ''.onnx'')
      in (model_path, piper_voice))"

text \<open>The body of the \<^verbatim>\<open>try\<close> block of \<^verbatim>\<open>PiperProvider.synthesize\<close>.\<close>

definition piper_try :: "host \<Rightarrow> string \<Rightarrow> string \<Rightarrow> unicode \<Rightarrow> io \<Rightarrow> (error + bytes) \<times> io" where
  "piper_try h model_or_name tmp_path input_text st =
     (let cmd = [''piper'', ''--model'', model_or_name, ''--output_file'', tmp_path];
          st1 = st\<lparr>trace := trace st @ [Spawn cmd input_text]\<rparr>
      in case piper_process h cmd input_text (files st) of
           PopenRaised e \<Rightarrow> (Inl (Raised e), st1)
         | CommunicateRaised e fs later \<Rightarrow>
             (Inl (Raised e), st1\<lparr>files := fs, running := running st1 @ [later]\<rparr>)
         | Exited returncode stdout stderr fs \<Rightarrow>
             (let st2 = st1\<lparr>files := fs\<rparr> in
              if returncode \<noteq> 0 then
                (case stderr of
                   None \<Rightarrow> (Inl (Raised UnicodeDecodeError), st2)
                 | Some msg \<Rightarrow> (Inl (HTTPException 500 [Lit (''TTS failed: '' @ msg)]), st2))
              else
                (case fs tmp_path of
                   None \<Rightarrow> (Inl (Raised (OSError ''FileNotFoundError'')), st2)
                 | Some audio_data \<Rightarrow> (Inr audio_data, st2))))"

text \<open>The \<^verbatim>\<open>finally\<close> block: remove the temporary file when it exists.\<close>

definition piper_finally :: "string \<Rightarrow> io \<Rightarrow> io" where
  "piper_finally tmp_path st =
     (if files st tmp_path \<noteq> None then st\<lparr>files := (files st)(tmp_path := None)\<rparr> else st)"

definition piper_synthesize ::
  "host \<Rightarrow> PiperProvider \<Rightarrow> unicode \<Rightarrow> string \<Rightarrow> rat \<Rightarrow> io \<Rightarrow> (error + bytes) \<times> io" where
  "piper_synthesize h self input_text voice speed st =
     (let (model_path, piper_voice) = get_voice_path h self voice;
          model_or_name = (if files st model_path \<noteq> None then model_path else piper_voice)
      in case named_temporary_file h (files st) of
           Inl e \<Rightarrow> (Inl (Raised e), st)
         | Inr tmp_path \<Rightarrow>
             (let st1 = st\<lparr>files := (files st)(tmp_path \<mapsto> [])\<rparr>;
                  (result, st2) = piper_try h model_or_name tmp_path input_text st1
              in (result, piper_finally tmp_path st2)))"

definition piper_provider :: "PiperProvider \<Rightarrow> TTSProvider" where
  "piper_provider self =
     \<lparr>tts_name = ''Piper'',
      tts_is_configured = piper_is_configured,
      tts_synthesize = (\<lambda>h input_text voice speed st.
                          Some (piper_synthesize h self input_text voice speed st))\<rparr>"

subsection \<open>\<^verbatim>\<open>ReplicateKokoroProvider\<close>\<close>

record ReplicateKokoroProvider =
  kokoro_api_token :: "string option"
  kokoro_model :: string
  kokoro_version :: string
  kokoro_default_voice :: string
  kokoro_voice_map :: "(string \<times> string) list"
  kokoro_available_voices :: "string list"

definition ReplicateKokoroProvider_init :: "host \<Rightarrow> ReplicateKokoroProvider" where
  "ReplicateKokoroProvider_init h =
     \<lparr>kokoro_api_token = environ h ''REPLICATE_API_TOKEN'',
      kokoro_model = ''jaaari/kokoro-82m'',
      kokoro_version = getenv h ''KOKORO_VERSION''
        ''f559560eb822dc509045f3921a1921234918b91739db4bf3daab2169b71c7a13'',
      kokoro_default_voice = getenv h ''KOKORO_DEFAULT_VOICE'' ''af_bella'',
      kokoro_voice_map =
        [(''alloy'', ''af_alloy''),
         (''echo'', ''am_echo''),
         (''fable'', ''bf_emma''),
         (''onyx'', ''am_onyx''),
         (''nova'', ''af_nova''),
         (''shimmer'', ''af_bella'')],
      kokoro_available_voices =
        [''af_alloy'', ''af_aoede'', ''af_bella'', ''af_heart'', ''af_jessica'',
         ''af_kore'', ''af_nicole'', ''af_nova'', ''af_river'', ''af_sarah'', ''af_sky'',
         ''am_adam'', ''am_echo'', ''am_eric'', ''am_fenrir'', ''am_liam'',
         ''am_michael'', ''am_onyx'', ''am_puck'', ''am_santa'',
         ''bf_alice'', ''bf_emma'', ''bf_isabella'', ''bf_lily'',
         ''bm_daniel'', ''bm_fable'', ''bm_george'', ''bm_lewis'',
         ''ff_siwis'',
         ''hf_alpha'', ''hf_beta'',
         ''hm_omega'', ''hm_psi'',
         ''if_sara'',
         ''im_nicola'',
         ''jf_alpha'', ''jf_gongitsune'',
         ''jm_kumo'',
         ''pf_dora'',
         ''pm_alex'', ''pm_santa'',
         ''zf_xiaobei'', ''zf_xiaoni'', ''zf_xiaoxiao'', ''zf_xiaoyi'',
         ''zm_yunjian'', ''zm_yunxi'', ''zm_yunxia'', ''zm_yunyang'']\<rparr>"

definition kokoro_name :: "ReplicateKokoroProvider \<Rightarrow> string" where
  "kokoro_name self = ''Replicate Kokoro ('' @ kokoro_default_voice self @ '')''"

definition kokoro_is_configured :: "ReplicateKokoroProvider \<Rightarrow> bool" where
  "kokoro_is_configured self = py_bool_opt (kokoro_api_token self)"

text \<open>
  Lines 215 to 217 of \<^verbatim>\<open>synthesize\<close>: the voice sent to the backend.
  \<^verbatim>\<open>
  kokoro_voice = self.voice_map.get(voice.lower(), voice)
  if kokoro_voice not in self.available_voices:
      kokoro_voice = self.default_voice
  \<close>
\<close>

definition kokoro_voice :: "ReplicateKokoroProvider \<Rightarrow> string \<Rightarrow> string" where
  "kokoro_voice self voice =
     (let v = (case map_of (kokoro_voice_map self) (py_lower voice) of
                 None \<Rightarrow> voice | Some m \<Rightarrow> m)
      in if v \<notin> set (kokoro_available_voices self) then kokoro_default_voice self else v)"

text \<open>The three requests of the provider.\<close>

definition kokoro_create_request ::
  "ReplicateKokoroProvider \<Rightarrow> unicode \<Rightarrow> string \<Rightarrow> rat \<Rightarrow> http_request" where
  "kokoro_create_request self input_text voice speed =
     \<lparr>req_method = POST,
      req_url = [Lit ''https://api.replicate.com/v1/predictions''],
      req_headers =
        [(''Authorization'', [Lit ''Bearer '', fmt_opt (kokoro_api_token self)]),
         (''Content-Type'', [Lit ''application/json''])],
      req_body = PredictionBody (kokoro_version self) input_text voice speed\<rparr>"

definition kokoro_status_request :: "ReplicateKokoroProvider \<Rightarrow> json \<Rightarrow> http_request" where
  "kokoro_status_request self prediction_id =
     \<lparr>req_method = GET,
      req_url = [Lit ''https://api.replicate.com/v1/predictions/'', Fmt prediction_id],
      req_headers = [(''Authorization'', [Lit ''Bearer '', fmt_opt (kokoro_api_token self)])],
      req_body = NoBody\<rparr>"

definition kokoro_download_request :: "json \<Rightarrow> http_request" where
  "kokoro_download_request output_url =
     \<lparr>req_method = GET, req_url = [Fmt output_url], req_headers = [], req_body = NoBody\<rparr>"

text \<open>
  The \<^verbatim>\<open>while True\<close> loop of \<^verbatim>\<open>synthesize\<close> (lines 249 to 283). The counter
  \<^verbatim>\<open>poll_count\<close> is only logged: the polls are the \<open>Send\<close> events of the trace.
\<close>

partial_function (option) kokoro_poll ::
  "host \<Rightarrow> ReplicateKokoroProvider \<Rightarrow> json \<Rightarrow> io \<Rightarrow> ((error + bytes) \<times> io) option" where
  "kokoro_poll h self prediction_id st =
     (case http_send h (kokoro_status_request self prediction_id) st of
        (Inl e, st1) \<Rightarrow> Some (Inl (Raised e), st1)
      | (Inr poll_response, st1) \<Rightarrow>
          (case response_json poll_response of
             None \<Rightarrow> Some (Inl (Raised JSONDecodeError), st1)
           | Some result \<Rightarrow>
               (case py_getitem result ''status'' of
                  Inl e \<Rightarrow> Some (Inl (Raised e), st1)
                | Inr status \<Rightarrow>
                    if status = JStr ''succeeded'' then
                      (case py_getitem result ''output'' of
                         Inl e \<Rightarrow> Some (Inl (Raised e), st1)
                       | Inr output_url \<Rightarrow>
                           (case http_send h (kokoro_download_request output_url) st1 of
                              (Inl e, st2) \<Rightarrow> Some (Inl (Raised e), st2)
                            | (Inr audio_response, st2) \<Rightarrow>
                                if status_code audio_response \<noteq> 200
                                then Some (Inl (HTTPException 500 [Lit ''Failed to download audio'']), st2)
                                else Some (Inr (response_content audio_response), st2)))
                    else if status = JStr ''failed'' then
                      (case py_get result ''error'' (JStr ''Unknown error'') of
                         Inl e \<Rightarrow> Some (Inl (Raised e), st1)
                       | Inr err \<Rightarrow> Some (Inl (HTTPException 500 [Lit ''TTS failed: '', Fmt err]), st1))
                    else if status = JStr ''canceled'' then
                      Some (Inl (HTTPException 500 [Lit ''TTS prediction was canceled'']), st1)
                    else kokoro_poll h self prediction_id (asyncio_sleep (1 / 2) st1))))"

definition kokoro_synthesize ::
  "host \<Rightarrow> ReplicateKokoroProvider \<Rightarrow> unicode \<Rightarrow> string \<Rightarrow> rat \<Rightarrow> io \<Rightarrow> ((error + bytes) \<times> io) option" where
  "kokoro_synthesize h self input_text voice speed st =
     (case http_send h (kokoro_create_request self input_text (kokoro_voice self voice) speed) st of
        (Inl e, st1) \<Rightarrow> Some (Inl (Raised e), st1)
      | (Inr response, st1) \<Rightarrow>
          if status_code response \<noteq> 201
          then Some (Inl (HTTPException (status_code response) [Lit (response_text response)]), st1)
          else
            (case response_json response of
               None \<Rightarrow> Some (Inl (Raised JSONDecodeError), st1)
             | Some prediction \<Rightarrow>
                 (case py_getitem prediction ''id'' of
                    Inl e \<Rightarrow> Some (Inl (Raised e), st1)
                  | Inr prediction_id \<Rightarrow> kokoro_poll h self prediction_id st1)))"

definition kokoro_provider :: "ReplicateKokoroProvider \<Rightarrow> TTSProvider" where
  "kokoro_provider self =
     \<lparr>tts_name = kokoro_name self,
      tts_is_configured = (\<lambda>h. kokoro_is_configured self),
      tts_synthesize = (\<lambda>h. kokoro_synthesize h self)\<rparr>"

subsection \<open>The registry and the selection of the provider\<close>

definition TTS_PROVIDERS :: "(string \<times> (host \<Rightarrow> TTSProvider)) list" where
  "TTS_PROVIDERS =
     [(''piper'', \<lambda>h. piper_provider (PiperProvider_init h)),
      (''kokoro'', \<lambda>h. kokoro_provider (ReplicateKokoroProvider_init h))]"

definition tts_get_provider :: "host \<Rightarrow> error + TTSProvider" where
  "tts_get_provider h =
     (let provider_name = py_lower (getenv h ''TTS_PROVIDER'' ''piper'') in
      case map_of TTS_PROVIDERS provider_name of
        None \<Rightarrow>
          (let available = join_str '', '' (map fst TTS_PROVIDERS) in
           Inl (ValueError (''Unknown TTS provider: '' @ provider_name @ ''. Available: '' @ available)))
      | Some cls \<Rightarrow>
          (let provider = cls h in
           if \<not> tts_is_configured provider h
           then Inl (ValueError (''TTS provider '' @ [CHR 0x27] @ provider_name @ [CHR 0x27]
                                 @ '' is not configured. Check requirements.''))
           else Inr provider))"

text \<open>\<^verbatim>\<open>startup\<close>: the module's \<^verbatim>\<open>provider\<close> stays \<^verbatim>\<open>None\<close> when the selection fails.\<close>

definition tts_startup :: "host \<Rightarrow> error + TTSProvider option" where
  "tts_startup h =
     (case tts_get_provider h of
        Inr provider \<Rightarrow> Inr (Some provider)
      | Inl (ValueError e) \<Rightarrow> Inr None
      | Inl e \<Rightarrow> Inl e)"

subsection \<open>The endpoints\<close>

record SpeechRequest =
  request_model :: string
  request_input :: unicode
  request_voice :: string
  request_response_format :: "string option"
  request_speed :: "rat option"

text \<open>\<^verbatim>\<open>StreamingResponse\<close>: the bytes, the media type and the headers.\<close>

datatype speech_response = StreamingResponse bytes string "(string \<times> string) list"

text \<open>\<^verbatim>\<open>request.speed or 1.0\<close>.\<close>

definition speed_or_default :: "rat option \<Rightarrow> rat" where
  "speed_or_default speed = (case speed of None \<Rightarrow> 1 | Some s \<Rightarrow> if s = 0 then 1 else s)"

text \<open>
  The \<^verbatim>\<open>except\<close> clauses of both endpoints: an \<^verbatim>\<open>HTTPException\<close> is raised again,
  any other exception becomes a 500 whose detail is \<^verbatim>\<open>str(e)\<close>.
\<close>

fun reraise :: "error \<Rightarrow> error" where
  "reraise (HTTPException code detail) = HTTPException code detail"
| "reraise (ValueError msg) = HTTPException 500 [Lit msg]"
| "reraise (Raised e) = HTTPException 500 [FmtExc e]"

definition create_speech ::
  "host \<Rightarrow> TTSProvider option \<Rightarrow> SpeechRequest \<Rightarrow> io \<Rightarrow> ((error + speech_response) \<times> io) option" where
  "create_speech h provider request st =
     (case provider of
        None \<Rightarrow>
          Some (Inl (HTTPException 500
            [Lit ''No TTS provider configured. Set TTS_PROVIDER and required configuration.'']), st)
      | Some p \<Rightarrow>
          if request_input request = [] \<or> py_strip (request_input request) = []
          then Some (Inl (HTTPException 400 [Lit ''Input text is required'']), st)
          else
            (case tts_synthesize p h (request_input request) (request_voice request)
                    (speed_or_default (request_speed request)) st of
               None \<Rightarrow> None
             | Some (Inl e, st1) \<Rightarrow> Some (Inl (reraise e), st1)
             | Some (Inr audio_data, st1) \<Rightarrow>
                 Some (Inr (StreamingResponse audio_data ''audio/wav''
                   [(''Content-Disposition'', ''attachment; filename=speech.wav'')]), st1)))"

definition tts_health_check :: "host \<Rightarrow> TTSProvider option \<Rightarrow> json" where
  "tts_health_check h provider =
     JObj [(''status'', JStr (if provider \<noteq> None then ''healthy'' else ''degraded'')),
           (''provider'', case provider of None \<Rightarrow> JNull | Some p \<Rightarrow> JStr (tts_name p)),
           (''provider_configured'',
              case provider of None \<Rightarrow> JBool False | Some p \<Rightarrow> JBool (tts_is_configured p h))]"

section \<open>Speech to text: \<^verbatim>\<open>revai-adapter/main.py\<close>\<close>

text \<open>
  \<^verbatim>\<open>class STTProvider(ABC)\<close>. \<^verbatim>\<open>transcribe\<close> returns what the backend's JSON holds,
  which Python does not force to be a string.
\<close>

record STTProvider =
  stt_name :: string
  stt_is_configured :: bool
  stt_transcribe :: "host \<Rightarrow> bytes \<Rightarrow> string \<Rightarrow> string \<Rightarrow> io \<Rightarrow> ((error + json) \<times> io) option"

subsection \<open>\<^verbatim>\<open>GroqProvider\<close>\<close>

record GroqProvider =
  groq_api_key :: "string option"
  groq_model :: string
  groq_base_url :: string

definition GroqProvider_init :: "host \<Rightarrow> GroqProvider" where
  "GroqProvider_init h =
     \<lparr>groq_api_key = environ h ''GROQ_API_KEY'',
      groq_model = getenv h ''GROQ_STT_MODEL'' ''whisper-large-v3-turbo'',
      groq_base_url = ''https://api.groq.com/openai/v1''\<rparr>"

definition groq_request :: "GroqProvider \<Rightarrow> bytes \<Rightarrow> string \<Rightarrow> string \<Rightarrow> http_request" where
  "groq_request self audio_content filename content_type =
     \<lparr>req_method = POST,
      req_url = [Lit (groq_base_url self @ ''/audio/transcriptions'')],
      req_headers = [(''Authorization'', [Lit ''Bearer '', fmt_opt (groq_api_key self)])],
      req_body = FormBody
        [(''model'', JStr (groq_model self)), (''language'', JStr ''en''), (''response_format'', JStr ''json'')]
        [(''file'', filename, audio_content, content_type)]\<rparr>"

definition groq_transcribe ::
  "host \<Rightarrow> GroqProvider \<Rightarrow> bytes \<Rightarrow> string \<Rightarrow> string \<Rightarrow> io \<Rightarrow> (error + json) \<times> io" where
  "groq_transcribe h self audio_content filename content_type st =
     (case http_send h (groq_request self audio_content filename content_type) st of
        (Inl e, st1) \<Rightarrow> (Inl (Raised e), st1)
      | (Inr response, st1) \<Rightarrow>
          if status_code response \<noteq> 200
          then (Inl (HTTPException (status_code response) [Lit (response_text response)]), st1)
          else
            (case response_json response of
               None \<Rightarrow> (Inl (Raised JSONDecodeError), st1)
             | Some result \<Rightarrow>
                 (case py_get result ''text'' (JStr []) of
                    Inl e \<Rightarrow> (Inl (Raised e), st1)
                  | Inr v \<Rightarrow> (Inr v, st1))))"

definition groq_provider :: "GroqProvider \<Rightarrow> STTProvider" where
  "groq_provider self =
     \<lparr>stt_name = ''Groq ('' @ groq_model self @ '')'',
      stt_is_configured = py_bool_opt (groq_api_key self),
      stt_transcribe = (\<lambda>h audio_content filename content_type st.
                          Some (groq_transcribe h self audio_content filename content_type st))\<rparr>"

subsection \<open>\<^verbatim>\<open>RevAIProvider\<close>\<close>

record RevAIProvider =
  revai_api_key :: "string option"
  revai_base_url :: string

definition RevAIProvider_init :: "host \<Rightarrow> RevAIProvider" where
  "RevAIProvider_init h =
     \<lparr>revai_api_key = environ h ''REV_AI_ACCESS_TOKEN'',
      revai_base_url = ''https://api.rev.ai/speechtotext/v1''\<rparr>"

definition revai_headers :: "RevAIProvider \<Rightarrow> (string \<times> fstring) list" where
  "revai_headers self = [(''Authorization'', [Lit ''Bearer '', fmt_opt (revai_api_key self)])]"

definition revai_job_request :: "RevAIProvider \<Rightarrow> bytes \<Rightarrow> string \<Rightarrow> string \<Rightarrow> http_request" where
  "revai_job_request self audio_content filename content_type =
     \<lparr>req_method = POST,
      req_url = [Lit (revai_base_url self @ ''/jobs'')],
      req_headers = revai_headers self,
      req_body = FormBody
        [(''transcriber'', JStr ''low_cost''),
         (''language'', JStr ''en''),
         (''skip_punctuation'', JBool False),
         (''filter_profanity'', JBool False),
         (''remove_disfluencies'', JBool True),
         (''remove_atmospherics'', JBool True),
         (''speakers_count'', JNum 1)]
        [(''media'', filename, audio_content, content_type)]\<rparr>"

definition revai_status_request :: "RevAIProvider \<Rightarrow> json \<Rightarrow> http_request" where
  "revai_status_request self job_id =
     \<lparr>req_method = GET,
      req_url = [Lit (revai_base_url self @ ''/jobs/''), Fmt job_id],
      req_headers = revai_headers self,
      req_body = NoBody\<rparr>"

definition revai_transcript_request :: "RevAIProvider \<Rightarrow> json \<Rightarrow> http_request" where
  "revai_transcript_request self job_id =
     \<lparr>req_method = GET,
      req_url = [Lit (revai_base_url self @ ''/jobs/''), Fmt job_id, Lit ''/transcript''],
      req_headers = revai_headers self @ [(''Accept'', [Lit ''application/vnd.rev.transcript.v1.0+json''])],
      req_body = NoBody\<rparr>"

text \<open>
  \<^verbatim>\<open>RevAIProvider.transcribe\<close>, the list comprehension of lines 170 to 175:
  \<^verbatim>\<open>
  text = " ".join([
      element["value"]
      for monolog in transcript_data.get("monologues", [])
      for element in monolog.get("elements", [])
      if element.get("type") == "text"
  ])
  \<close>
  The inner loop over the elements of one monologue.
\<close>

fun revai_elements :: "json list \<Rightarrow> py_exception + json list" where
  "revai_elements [] = Inr []"
| "revai_elements (element # rest) =
     (case py_get element ''type'' JNull of
        Inl e \<Rightarrow> Inl e
      | Inr ty \<Rightarrow>
          if ty = JStr ''text'' then
            (case py_getitem element ''value'' of
               Inl e \<Rightarrow> Inl e
             | Inr v \<Rightarrow> (case revai_elements rest of Inl e \<Rightarrow> Inl e | Inr vs \<Rightarrow> Inr (v # vs)))
          else revai_elements rest)"

text \<open>The outer loop over the monologues.\<close>

fun revai_monologues :: "json list \<Rightarrow> py_exception + json list" where
  "revai_monologues [] = Inr []"
| "revai_monologues (monolog # rest) =
     (case py_get monolog ''elements'' (JArr []) of
        Inl e \<Rightarrow> Inl e
      | Inr els \<Rightarrow>
          (case py_iter els of
             Inl e \<Rightarrow> Inl e
           | Inr elements \<Rightarrow>
               (case revai_elements elements of
                  Inl e \<Rightarrow> Inl e
                | Inr vs \<Rightarrow>
                    (case revai_monologues rest of Inl e \<Rightarrow> Inl e | Inr ws \<Rightarrow> Inr (vs @ ws)))))"

definition revai_extract_text :: "json \<Rightarrow> py_exception + json" where
  "revai_extract_text transcript_data =
     (case py_get transcript_data ''monologues'' (JArr []) of
        Inl e \<Rightarrow> Inl e
      | Inr ms \<Rightarrow>
          (case py_iter ms of
             Inl e \<Rightarrow> Inl e
           | Inr monologues \<Rightarrow>
               (case revai_monologues monologues of
                  Inl e \<Rightarrow> Inl e
                | Inr items \<Rightarrow> py_join '' '' items)))"

text \<open>The \<^verbatim>\<open>while True\<close> loop of \<^verbatim>\<open>transcribe\<close> (lines 149 to 181).\<close>

partial_function (option) revai_poll ::
  "host \<Rightarrow> RevAIProvider \<Rightarrow> json \<Rightarrow> io \<Rightarrow> ((error + json) \<times> io) option" where
  "revai_poll h self job_id st =
     (case http_send h (revai_status_request self job_id) st of
        (Inl e, st1) \<Rightarrow> Some (Inl (Raised e), st1)
      | (Inr status_response, st1) \<Rightarrow>
          (case response_json status_response of
             None \<Rightarrow> Some (Inl (Raised JSONDecodeError), st1)
           | Some status_data \<Rightarrow>
               (case py_getitem status_data ''status'' of
                  Inl e \<Rightarrow> Some (Inl (Raised e), st1)
                | Inr status \<Rightarrow>
                    if status = JStr ''transcribed'' then
                      (case http_send h (revai_transcript_request self job_id) st1 of
                         (Inl e, st2) \<Rightarrow> Some (Inl (Raised e), st2)
                       | (Inr transcript_response, st2) \<Rightarrow>
                           (case response_json transcript_response of
                              None \<Rightarrow> Some (Inl (Raised JSONDecodeError), st2)
                            | Some transcript_data \<Rightarrow>
                                (case revai_extract_text transcript_data of
                                   Inl e \<Rightarrow> Some (Inl (Raised e), st2)
                                 | Inr v \<Rightarrow> Some (Inr v, st2))))
                    else if status = JStr ''failed'' then
                      Some (Inl (HTTPException 500 [Lit ''Rev.ai transcription failed'']), st1)
                    else revai_poll h self job_id (asyncio_sleep 1 st1))))"

definition revai_transcribe ::
  "host \<Rightarrow> RevAIProvider \<Rightarrow> bytes \<Rightarrow> string \<Rightarrow> string \<Rightarrow> io \<Rightarrow> ((error + json) \<times> io) option" where
  "revai_transcribe h self audio_content filename content_type st =
     (case http_send h (revai_job_request self audio_content filename content_type) st of
        (Inl e, st1) \<Rightarrow> Some (Inl (Raised e), st1)
      | (Inr response, st1) \<Rightarrow>
          if status_code response \<noteq> 200
          then Some (Inl (HTTPException (status_code response) [Lit (response_text response)]), st1)
          else
            (case response_json response of
               None \<Rightarrow> Some (Inl (Raised JSONDecodeError), st1)
             | Some job \<Rightarrow>
                 (case py_getitem job ''id'' of
                    Inl e \<Rightarrow> Some (Inl (Raised e), st1)
                  | Inr job_id \<Rightarrow> revai_poll h self job_id st1)))"

definition revai_provider :: "RevAIProvider \<Rightarrow> STTProvider" where
  "revai_provider self =
     \<lparr>stt_name = ''Rev.ai'',
      stt_is_configured = py_bool_opt (revai_api_key self),
      stt_transcribe = (\<lambda>h. revai_transcribe h self)\<rparr>"

subsection \<open>\<^verbatim>\<open>DeepgramProvider\<close>\<close>

record DeepgramProvider =
  deepgram_api_key :: "string option"
  deepgram_base_url :: string

definition DeepgramProvider_init :: "host \<Rightarrow> DeepgramProvider" where
  "DeepgramProvider_init h =
     \<lparr>deepgram_api_key = environ h ''DEEPGRAM_API_KEY'',
      deepgram_base_url = ''https://api.deepgram.com/v1''\<rparr>"

definition deepgram_request :: "DeepgramProvider \<Rightarrow> bytes \<Rightarrow> string \<Rightarrow> http_request" where
  "deepgram_request self audio_content content_type =
     \<lparr>req_method = POST,
      req_url = [Lit (deepgram_base_url self @ ''/listen?model=nova-2&language=en'')],
      req_headers =
        [(''Authorization'', [Lit ''Token '', fmt_opt (deepgram_api_key self)]),
         (''Content-Type'', [Lit (if content_type = [] then ''audio/wav'' else content_type)])],
      req_body = ContentBody audio_content\<rparr>"

text \<open>Lines 225 to 230: the transcript of the first alternative of the first channel.\<close>

definition deepgram_extract :: "json \<Rightarrow> py_exception + json" where
  "deepgram_extract result =
     (case py_get result ''results'' (JObj []) of
        Inl e \<Rightarrow> Inl e
      | Inr results \<Rightarrow>
          (case py_get results ''channels'' (JArr []) of
             Inl e \<Rightarrow> Inl e
           | Inr channels \<Rightarrow>
               if py_truthy channels then
                 (case py_index0 channels of
                    Inl e \<Rightarrow> Inl e
                  | Inr channel \<Rightarrow>
                      (case py_get channel ''alternatives'' (JArr []) of
                         Inl e \<Rightarrow> Inl e
                       | Inr alternatives \<Rightarrow>
                           if py_truthy alternatives then
                             (case py_index0 alternatives of
                                Inl e \<Rightarrow> Inl e
                              | Inr alternative \<Rightarrow> py_get alternative ''transcript'' (JStr []))
                           else Inr (JStr [])))
               else Inr (JStr [])))"

definition deepgram_transcribe ::
  "host \<Rightarrow> DeepgramProvider \<Rightarrow> bytes \<Rightarrow> string \<Rightarrow> string \<Rightarrow> io \<Rightarrow> (error + json) \<times> io" where
  "deepgram_transcribe h self audio_content filename content_type st =
     (case http_send h (deepgram_request self audio_content content_type) st of
        (Inl e, st1) \<Rightarrow> (Inl (Raised e), st1)
      | (Inr response, st1) \<Rightarrow>
          if status_code response \<noteq> 200
          then (Inl (HTTPException (status_code response) [Lit (response_text response)]), st1)
          else
            (case response_json response of
               None \<Rightarrow> (Inl (Raised JSONDecodeError), st1)
             | Some result \<Rightarrow>
                 (case deepgram_extract result of
                    Inl e \<Rightarrow> (Inl (Raised e), st1)
                  | Inr v \<Rightarrow> (Inr v, st1))))"

definition deepgram_provider :: "DeepgramProvider \<Rightarrow> STTProvider" where
  "deepgram_provider self =
     \<lparr>stt_name = ''Deepgram'',
      stt_is_configured = py_bool_opt (deepgram_api_key self),
      stt_transcribe = (\<lambda>h audio_content filename content_type st.
                          Some (deepgram_transcribe h self audio_content filename content_type st))\<rparr>"

subsection \<open>The registry and the selection of the provider\<close>

definition STT_PROVIDERS :: "(string \<times> (host \<Rightarrow> STTProvider)) list" where
  "STT_PROVIDERS =
     [(''groq'', \<lambda>h. groq_provider (GroqProvider_init h)),
      (''revai'', \<lambda>h. revai_provider (RevAIProvider_init h)),
      (''deepgram'', \<lambda>h. deepgram_provider (DeepgramProvider_init h))]"

definition stt_get_provider :: "host \<Rightarrow> error + STTProvider" where
  "stt_get_provider h =
     (let provider_name = py_lower (getenv h ''STT_PROVIDER'' ''groq'') in
      case map_of STT_PROVIDERS provider_name of
        None \<Rightarrow>
          (let available = join_str '', '' (map fst STT_PROVIDERS) in
           Inl (ValueError (''Unknown STT provider: '' @ provider_name @ ''. Available: '' @ available)))
      | Some cls \<Rightarrow>
          (let provider = cls h in
           if \<not> stt_is_configured provider
           then Inl (ValueError (''STT provider '' @ [CHR 0x27] @ provider_name @ [CHR 0x27]
                                 @ '' is not configured. Check API key.''))
           else Inr provider))"

definition stt_startup :: "host \<Rightarrow> error + STTProvider option" where
  "stt_startup h =
     (case stt_get_provider h of
        Inr provider \<Rightarrow> Inr (Some provider)
      | Inl (ValueError e) \<Rightarrow> Inr None
      | Inl e \<Rightarrow> Inl e)"

subsection \<open>The endpoints\<close>

record UploadFile =
  upload_content :: bytes
  upload_filename :: "string option"
  upload_content_type :: "string option"

definition create_transcription ::
  "host \<Rightarrow> STTProvider option \<Rightarrow> UploadFile \<Rightarrow> io \<Rightarrow> ((error + json) \<times> io) option" where
  "create_transcription h provider file st =
     (case provider of
        None \<Rightarrow>
          Some (Inl (HTTPException 500
            [Lit ''No STT provider configured. Set STT_PROVIDER and required API key.'']), st)
      | Some p \<Rightarrow>
          (case stt_transcribe p h (upload_content file)
                  (or_default (upload_filename file) ''audio.wav'')
                  (or_default (upload_content_type file) ''audio/wav'') st of
             None \<Rightarrow> None
           | Some (Inl e, st1) \<Rightarrow> Some (Inl (reraise e), st1)
           | Some (Inr v, st1) \<Rightarrow> Some (Inr (JObj [(''text'', v)]), st1)))"

definition stt_health_check :: "STTProvider option \<Rightarrow> json" where
  "stt_health_check provider =
     JObj [(''status'', JStr ''healthy''),
           (''provider'', case provider of None \<Rightarrow> JNull | Some p \<Rightarrow> JStr (stt_name p)),
           (''provider_configured'',
              case provider of None \<Rightarrow> JBool False | Some p \<Rightarrow> JBool (stt_is_configured p))]"

section \<open>Notions of the specification\<close>

subsection \<open>Structured transcripts\<close>

text \<open>
  A structured transcript: an object whose \<open>monologues\<close> is a list of objects, each with
  a list \<open>elements\<close> of objects; an element of type \<open>text\<close> carries a string \<open>value\<close>.
  Other fields (speaker, timestamps, confidence) and elements of other types
  (punctuation) may be present.
\<close>

fun text_element_ok :: "json \<Rightarrow> bool" where
  "text_element_ok (JObj kv) =
     (if map_of kv ''type'' = Some (JStr ''text'')
      then (case map_of kv ''value'' of Some (JStr s) \<Rightarrow> True | _ \<Rightarrow> False)
      else True)"
| "text_element_ok _ = False"

fun monologue_ok :: "json \<Rightarrow> bool" where
  "monologue_ok (JObj kv) =
     (case map_of kv ''elements'' of Some (JArr es) \<Rightarrow> list_all text_element_ok es | _ \<Rightarrow> False)"
| "monologue_ok _ = False"

fun structured_transcript :: "json \<Rightarrow> bool" where
  "structured_transcript (JObj kv) =
     (case map_of kv ''monologues'' of Some (JArr ms) \<Rightarrow> list_all monologue_ok ms | _ \<Rightarrow> False)"
| "structured_transcript _ = False"

text \<open>The values of the elements of type \<open>text\<close>, in order.\<close>

fun text_value :: "json \<Rightarrow> string list" where
  "text_value (JObj kv) =
     (if map_of kv ''type'' = Some (JStr ''text'')
      then (case map_of kv ''value'' of Some (JStr s) \<Rightarrow> [s] | _ \<Rightarrow> [])
      else [])"
| "text_value _ = []"

fun monologue_texts :: "json \<Rightarrow> string list" where
  "monologue_texts (JObj kv) =
     (case map_of kv ''elements'' of Some (JArr es) \<Rightarrow> concat (map text_value es) | _ \<Rightarrow> [])"
| "monologue_texts _ = []"

fun transcript_texts :: "json \<Rightarrow> string list" where
  "transcript_texts (JObj kv) =
     (case map_of kv ''monologues'' of Some (JArr ms) \<Rightarrow> concat (map monologue_texts ms) | _ \<Rightarrow> [])"
| "transcript_texts _ = []"

subsection \<open>Scripted backends\<close>

text \<open>The loops are run by the code equations of their definitions.\<close>

declare kokoro_poll.simps [code]

declare revai_poll.simps [code]

text \<open>
  What a backend answers to a status poll sent after the events \<open>tr\<close>: the JSON body,
  and the value of its \<open>status\<close> field.
\<close>

definition poll_answer :: "host \<Rightarrow> event list \<Rightarrow> http_request \<Rightarrow> json option" where
  "poll_answer h tr req = (case network h tr req of Inl e \<Rightarrow> None | Inr r \<Rightarrow> response_json r)"

definition poll_status :: "host \<Rightarrow> event list \<Rightarrow> http_request \<Rightarrow> json option" where
  "poll_status h tr req =
     (case poll_answer h tr req of
        None \<Rightarrow> None
      | Some result \<Rightarrow> (case py_getitem result ''status'' of Inl e \<Rightarrow> None | Inr s \<Rightarrow> Some s))"

text \<open>
  The backend answers \<open>n\<close> polls in a row with a status that is not terminal: the poll
  sent after \<open>tr\<close>, then the one sent after that poll and the sleep that follows it,
  and so on.
\<close>

primrec pending_polls :: "host \<Rightarrow> event list \<Rightarrow> http_request \<Rightarrow> rat \<Rightarrow> json list \<Rightarrow> nat \<Rightarrow> bool" where
  "pending_polls h tr req d terminal 0 = True"
| "pending_polls h tr req d terminal (Suc n) =
     (case poll_status h tr req of
        None \<Rightarrow> False
      | Some s \<Rightarrow> s \<notin> set terminal \<and> pending_polls h (tr @ [Send req, Sleep d]) req d terminal n)"

text \<open>The events of \<open>n\<close> polls that found a pending status, with the sleep after each.\<close>

definition polls_trace :: "http_request \<Rightarrow> rat \<Rightarrow> nat \<Rightarrow> event list" where
  "polls_trace req d n = concat (replicate n [Send req, Sleep d])"

text \<open>The statuses that end the loop of each provider.\<close>

definition kokoro_terminal :: "json list" where
  "kokoro_terminal = [JStr ''succeeded'', JStr ''failed'', JStr ''canceled'']"

definition revai_terminal :: "json list" where
  "revai_terminal = [JStr ''transcribed'', JStr ''failed'']"

text \<open>
  The backend accepts the submission: 201 (Replicate) or 200 (Rev.ai) with a JSON body
  that holds the identifier of the job.
\<close>

definition kokoro_accepted :: "host \<Rightarrow> event list \<Rightarrow> http_request \<Rightarrow> json \<Rightarrow> bool" where
  "kokoro_accepted h tr create prediction_id =
     (case network h tr create of
        Inl e \<Rightarrow> False
      | Inr response \<Rightarrow>
          status_code response = 201 \<and>
          (case response_json response of
             None \<Rightarrow> False
           | Some prediction \<Rightarrow> py_getitem prediction ''id'' = Inr prediction_id))"

definition revai_accepted :: "host \<Rightarrow> event list \<Rightarrow> http_request \<Rightarrow> json \<Rightarrow> bool" where
  "revai_accepted h tr create job_id =
     (case network h tr create of
        Inl e \<Rightarrow> False
      | Inr response \<Rightarrow>
          status_code response = 200 \<and>
          (case response_json response of
             None \<Rightarrow> False
           | Some job \<Rightarrow> py_getitem job ''id'' = Inr job_id))"

subsection \<open>Responses without a transcript\<close>

text \<open>
  A Groq body is an object; it has no transcript when it has no field \<open>text\<close>.

  A Deepgram body is an object whose \<open>results\<close>, when present, is an object, whose
  \<open>channels\<close>, when present, is a list of objects, each with a list of objects
  \<open>alternatives\<close> when it has the field. It has no transcript when a step of the path
  \<open>results.channels[0].alternatives[0].transcript\<close> is not there: a field is absent, or
  the list of channels or of alternatives is empty.
\<close>

definition groq_no_transcript :: "json \<Rightarrow> bool" where
  "groq_no_transcript result = (case result of JObj kv \<Rightarrow> map_of kv ''text'' = None | _ \<Rightarrow> False)"

fun alternatives_lack_transcript :: "json \<Rightarrow> bool" where
  "alternatives_lack_transcript (JArr []) = True"
| "alternatives_lack_transcript (JArr (JObj alt # alts)) = (map_of alt ''transcript'' = None)"
| "alternatives_lack_transcript _ = False"

fun channels_lack_transcript :: "json \<Rightarrow> bool" where
  "channels_lack_transcript (JArr []) = True"
| "channels_lack_transcript (JArr (JObj ch # chs)) =
     (case map_of ch ''alternatives'' of None \<Rightarrow> True | Some alts \<Rightarrow> alternatives_lack_transcript alts)"
| "channels_lack_transcript _ = False"

fun results_lack_transcript :: "json \<Rightarrow> bool" where
  "results_lack_transcript (JObj rs) =
     (case map_of rs ''channels'' of None \<Rightarrow> True | Some chs \<Rightarrow> channels_lack_transcript chs)"
| "results_lack_transcript _ = False"

definition deepgram_no_transcript :: "json \<Rightarrow> bool" where
  "deepgram_no_transcript result =
     (case result of
        JObj kv \<Rightarrow>
          (case map_of kv ''results'' of None \<Rightarrow> True | Some res \<Rightarrow> results_lack_transcript res)
      | _ \<Rightarrow> False)"

subsection \<open>The status code of an error response\<close>

definition error_status :: "((error + 'a) \<times> io) option \<Rightarrow> nat option" where
  "error_status r = (case r of Some (Inl (HTTPException code detail), st) \<Rightarrow> Some code | _ \<Rightarrow> None)"

section \<open>Sample hosts and inputs\<close>

text \<open>Two transcripts: the one of the specification, and one with punctuation and other fields.\<close>

definition hello_transcript :: json where
  "hello_transcript =
     JObj [(''monologues'',
       JArr [JObj [(''elements'', JArr [JObj [(''type'', JStr ''text''), (''value'', JStr ''Hello'')],
                                       JObj [(''type'', JStr ''text''), (''value'', JStr ''world'')]])],
             JObj [(''elements'', JArr [JObj [(''type'', JStr ''text''), (''value'', JStr ''foo'')],
                                       JObj [(''type'', JStr ''text''), (''value'', JStr ''bar'')]])]])]"

definition revai_sample_transcript :: json where
  "revai_sample_transcript =
     JObj [(''monologues'',
       JArr [JObj [(''speaker'', JNum 0),
                   (''elements'', JArr [JObj [(''type'', JStr ''text''), (''value'', JStr ''Hi''), (''ts'', JNum 1)],
                                       JObj [(''type'', JStr ''punct''), (''value'', JStr '','')],
                                       JObj [(''type'', JStr ''text''), (''value'', JStr ''there'')]])],
             JObj [(''speaker'', JNum 1), (''elements'', JArr [])]])]"

text \<open>
  Both backends of the sample host report a job as pending until the client has slept
  long enough (twice for Replicate, once for Rev.ai) and then answer \<open>final\<close>.
\<close>

fun is_sleep :: "event \<Rightarrow> bool" where
  "is_sleep (Sleep d) = True"
| "is_sleep _ = False"

definition json_response :: "nat \<Rightarrow> json \<Rightarrow> http_response" where
  "json_response code body =
     \<lparr>status_code = code, response_text = [], response_content = [], response_json = Some body\<rparr>"

definition demo_network :: "json \<Rightarrow> event list \<Rightarrow> http_request \<Rightarrow> py_exception + http_response" where
  "demo_network final tr req =
     (if req_method req = POST \<and> req_url req = [Lit ''https://api.replicate.com/v1/predictions'']
        then Inr (json_response 201 (JObj [(''id'', JStr ''p1''), (''status'', JStr ''starting'')]))
      else if req_method req = POST \<and> req_url req = [Lit ''https://api.rev.ai/speechtotext/v1/jobs'']
        then Inr (json_response 200 (JObj [(''id'', JStr ''j1''), (''status'', JStr ''in_progress'')]))
      else if req_url req = [Lit ''https://api.replicate.com/v1/predictions/'', Fmt (JStr ''p1'')]
        then Inr (json_response 200
               (if length (filter is_sleep tr) < 2 then JObj [(''status'', JStr ''processing'')] else final))
      else if req_url req = [Lit ''https://api.rev.ai/speechtotext/v1/jobs/'', Fmt (JStr ''j1'')]
        then Inr (json_response 200
               (if length (filter is_sleep tr) < 1 then JObj [(''status'', JStr ''in_progress'')] else final))
      else if req_url req = [Fmt (JStr ''https://replicate.delivery/out.wav'')]
        then Inr \<lparr>status_code = 200, response_text = [], response_content = ''RIFF'', response_json = None\<rparr>
      else if req_url req = [Lit ''https://api.rev.ai/speechtotext/v1/jobs/'', Fmt (JStr ''j1''), Lit ''/transcript'']
        then Inr (json_response 200 hello_transcript)
      else Inl (HTTPError ''no route''))"

definition demo_host :: "json \<Rightarrow> host" where
  "demo_host final =
     \<lparr>environ = map_of [(''TTS_PROVIDER'', ''Kokoro''), (''REPLICATE_API_TOKEN'', ''r8''),
                         (''STT_PROVIDER'', ''RevAI''), (''REV_AI_ACCESS_TOKEN'', ''rev'')],
      which_piper = Some 0,
      path_join = (\<lambda>d n. d @ ''/'' @ n),
      named_temporary_file = (\<lambda>fs. Inr ''/tmp/tmp0.wav''),
      piper_process = (\<lambda>cmd inp fs. Exited 0 [] (Some []) (fs(last cmd \<mapsto> ''RIFF''))),
      network = demo_network final\<rparr>"

definition io0 :: io where
  "io0 = \<lparr>trace = [], files = (\<lambda>p. None), running = []\<rparr>"

text \<open>The input text \<open>hi\<close>.\<close>

definition demo_text :: unicode where
  "demo_text = [0x68, 0x69]"

definition demo_kokoro :: ReplicateKokoroProvider where
  "demo_kokoro = ReplicateKokoroProvider_init (demo_host JNull)"

definition demo_revai :: RevAIProvider where
  "demo_revai = RevAIProvider_init (demo_host JNull)"

definition kokoro_succeeded :: json where
  "kokoro_succeeded = JObj [(''status'', JStr ''succeeded''), (''output'', JStr ''https://replicate.delivery/out.wav'')]"

definition job_transcribed :: json where
  "job_transcribed = JObj [(''id'', JStr ''j1''), (''status'', JStr ''transcribed'')]"

definition job_failed :: json where
  "job_failed = JObj [(''status'', JStr ''failed''), (''error'', JStr ''out of memory'')]"

text \<open>
  Variations of the sample host: a backend that answers every request with the same
  response, a Piper executable that fails, one that is still running after 120 s and
  writes its output file later, a full disk, an unknown provider in the environment, an
  empty environment without Piper.
\<close>

definition host_answering :: "http_response \<Rightarrow> host" where
  "host_answering response = (demo_host JNull)\<lparr>network := (\<lambda>tr req. Inr response)\<rparr>"

definition rate_limited :: http_response where
  "rate_limited =
     \<lparr>status_code = 429, response_text = ''rate limited'', response_content = ''rate limited'',
      response_json = None\<rparr>"

definition failing_piper_host :: host where
  "failing_piper_host =
     (demo_host JNull)\<lparr>piper_process := (\<lambda>cmd inp fs. Exited 1 [] (Some ''no such voice'') (fs(last cmd \<mapsto> [])))\<rparr>"

definition slow_piper_host :: host where
  "slow_piper_host =
     (demo_host JNull)\<lparr>piper_process :=
        (\<lambda>cmd inp fs. CommunicateRaised TimeoutExpired fs (\<lambda>fs'. fs'(last cmd \<mapsto> ''RIFF'')))\<rparr>"

definition full_disk_host :: host where
  "full_disk_host = (demo_host JNull)\<lparr>named_temporary_file := (\<lambda>fs. Inl (OSError ''No space left on device''))\<rparr>"

definition unknown_provider_host :: host where
  "unknown_provider_host =
     (demo_host JNull)\<lparr>environ := map_of [(''TTS_PROVIDER'', ''Festival''), (''STT_PROVIDER'', ''whisper'')]\<rparr>"

definition bare_host :: host where
  "bare_host = (demo_host JNull)\<lparr>environ := (\<lambda>k. None), which_piper := Some 1\<rparr>"

definition demo_piper :: PiperProvider where
  "demo_piper = PiperProvider_init (demo_host JNull)"

definition demo_groq :: GroqProvider where
  "demo_groq = GroqProvider_init (demo_host JNull)"

definition demo_deepgram :: DeepgramProvider where
  "demo_deepgram = DeepgramProvider_init (demo_host JNull)"

definition demo_request :: "unicode \<Rightarrow> SpeechRequest" where
  "demo_request s =
     \<lparr>request_model = ''tts-1'', request_input = s, request_voice = ''nova'',
      request_response_format = Some ''wav'', request_speed = Some 1\<rparr>"

definition demo_upload :: UploadFile where
  "demo_upload = \<lparr>upload_content = ''RIFF'', upload_filename = Some ''a.wav'', upload_content_type = None\<rparr>"

definition groq_no_field :: json where
  "groq_no_field = JObj [(''x_groq'', JObj [(''id'', JStr ''req_1'')])]"

definition deepgram_empty :: json where
  "deepgram_empty = JObj []"

definition deepgram_no_channels_field :: json where
  "deepgram_no_channels_field = JObj [(''metadata'', JObj []), (''results'', JObj [])]"

definition deepgram_no_alternatives_field :: json where
  "deepgram_no_alternatives_field =
     JObj [(''results'', JObj [(''channels'', JArr [JObj [(''detected_language'', JStr ''en'')]])])]"

definition groq_empty :: json where
  "groq_empty = JObj []"

definition deepgram_no_channels :: json where
  "deepgram_no_channels = JObj [(''metadata'', JObj []), (''results'', JObj [(''channels'', JArr [])])]"

definition deepgram_no_alternatives :: json where
  "deepgram_no_alternatives =
     JObj [(''results'', JObj [(''channels'', JArr [JObj [(''alternatives'', JArr [])]])])]"

definition deepgram_no_field :: json where
  "deepgram_no_field =
     JObj [(''results'', JObj [(''channels'',
       JArr [JObj [(''alternatives'', JArr [JObj [(''confidence'', JNum 0)]])]])])]"

section \<open>Theorems\<close>

subsection \<open>The text of a transcript\<close>

lemma revai_elements_ok:
  "list_all text_element_ok es \<Longrightarrow>
   revai_elements es = Inr (map JStr (concat (map text_value es)))"
proof (induction es)
  case Nil
  then show ?case by simp
next
  case (Cons e es)
  then obtain kv where e: "e = JObj kv" by (cases e) auto
  from Cons show ?case
    by (auto simp: e split: option.splits json.splits)
qed

lemma revai_monologues_ok:
  "list_all monologue_ok ms \<Longrightarrow>
   revai_monologues ms = Inr (map JStr (concat (map monologue_texts ms)))"
proof (induction ms)
  case Nil
  then show ?case by simp
next
  case (Cons m ms)
  then obtain kv where m: "m = JObj kv" by (cases m) auto
  from Cons show ?case
    by (auto simp: m revai_elements_ok split: option.splits json.splits)
qed

lemma str_items_map_JStr: "str_items (map JStr ss) = Inr ss"
  by (induction ss) auto

text \<open>
  C9. For every structured transcript, the text that the Rev.ai provider reconstructs is
  the values of the elements of type \<open>text\<close> of every monologue, in order, joined by
  single spaces; the transcript with the monologues [Hello, world] and [foo, bar] gives
  exactly \<open>Hello world foo bar\<close>.
\<close>

theorem revai_text_reconstruction:
  "(structured_transcript t \<longrightarrow>
      revai_extract_text t = Inr (JStr (join_str '' '' (transcript_texts t))))
   \<and> revai_extract_text hello_transcript = Inr (JStr ''Hello world foo bar'')"
proof
  show "structured_transcript t \<longrightarrow>
      revai_extract_text t = Inr (JStr (join_str '' '' (transcript_texts t)))"
  proof
    assume wf: "structured_transcript t"
    then obtain kv where t: "t = JObj kv" by (cases t) auto
    from wf obtain ms where ms: "map_of kv ''monologues'' = Some (JArr ms)" "list_all monologue_ok ms"
      by (auto simp: t split: option.splits json.splits)
    show "revai_extract_text t = Inr (JStr (join_str '' '' (transcript_texts t)))"
      by (simp add: revai_extract_text_def t ms revai_monologues_ok py_join_def str_items_map_JStr)
  qed
  show "revai_extract_text hello_transcript = Inr (JStr ''Hello world foo bar'')"
    by (simp add: revai_extract_text_def hello_transcript_def py_join_def)
qed

theorem revai_text_reconstruction_witness:
  "structured_transcript revai_sample_transcript
   \<and> revai_extract_text revai_sample_transcript = Inr (JStr ''Hi there'')"
proof -
  have wf: "structured_transcript revai_sample_transcript"
    by (simp add: revai_sample_transcript_def)
  have "transcript_texts revai_sample_transcript = [''Hi'', ''there'']"
    by (simp add: revai_sample_transcript_def)
  with wf revai_text_reconstruction [of revai_sample_transcript] show ?thesis
    by simp
qed

subsection \<open>The polling loops\<close>

lemma polls_trace_Suc: "polls_trace req d (Suc n) = [Send req, Sleep d] @ polls_trace req d n"
  by (simp add: polls_trace_def)

lemma poll_statusD:
  "poll_status h tr req = Some s \<Longrightarrow>
   \<exists>r result. network h tr req = Inr r \<and> response_json r = Some result \<and> py_getitem result ''status'' = Inr s"
  by (auto simp: poll_status_def poll_answer_def split: sum.splits option.splits)

lemma kokoro_poll_step:
  assumes "poll_status h (trace st) (kokoro_status_request self pid) = Some s"
    and "s \<notin> set kokoro_terminal"
  shows "kokoro_poll h self pid st =
         kokoro_poll h self pid
           (st\<lparr>trace := trace st @ [Send (kokoro_status_request self pid), Sleep (1 / 2)]\<rparr>)"
proof -
  from poll_statusD [OF assms(1)] obtain r result where
    r: "network h (trace st) (kokoro_status_request self pid) = Inr r"
    "response_json r = Some result" "py_getitem result ''status'' = Inr s" by blast
  from assms(2) have s: "s \<noteq> JStr ''succeeded''" "s \<noteq> JStr ''failed''" "s \<noteq> JStr ''canceled''"
    by (auto simp: kokoro_terminal_def)
  show ?thesis
    by (subst kokoro_poll.simps) (simp add: http_send_def asyncio_sleep_def r s)
qed

lemma kokoro_poll_pending:
  "pending_polls h (trace st) (kokoro_status_request self pid) (1 / 2) kokoro_terminal n \<Longrightarrow>
   kokoro_poll h self pid st =
   kokoro_poll h self pid (st\<lparr>trace := trace st @ polls_trace (kokoro_status_request self pid) (1 / 2) n\<rparr>)"
proof (induction n arbitrary: st)
  case 0
  then show ?case by (simp add: polls_trace_def)
next
  case (Suc n)
  let ?req = "kokoro_status_request self pid"
  from Suc.prems obtain s where s: "poll_status h (trace st) ?req = Some s" "s \<notin> set kokoro_terminal"
    and rest: "pending_polls h (trace st @ [Send ?req, Sleep (1 / 2)]) ?req (1 / 2) kokoro_terminal n"
    by (auto split: option.splits)
  let ?st1 = "st\<lparr>trace := trace st @ [Send ?req, Sleep (1 / 2)]\<rparr>"
  have "kokoro_poll h self pid st = kokoro_poll h self pid ?st1"
    by (rule kokoro_poll_step [OF s])
  also have "\<dots> = kokoro_poll h self pid (?st1\<lparr>trace := trace ?st1 @ polls_trace ?req (1 / 2) n\<rparr>)"
    by (rule Suc.IH) (simp add: rest)
  finally show ?case by (simp add: polls_trace_Suc)
qed

lemma poll_answerD:
  "poll_answer h tr req = Some result \<Longrightarrow> \<exists>r. network h tr req = Inr r \<and> response_json r = Some result"
  by (auto simp: poll_answer_def split: sum.splits)

lemma kokoro_poll_succeeded:
  assumes "poll_answer h (trace st) (kokoro_status_request self pid) = Some result"
    and "py_getitem result ''status'' = Inr (JStr ''succeeded'')"
    and "py_getitem result ''output'' = Inr url"
    and "network h (trace st @ [Send (kokoro_status_request self pid)]) (kokoro_download_request url) = Inr audio"
    and "status_code audio = 200"
  shows "kokoro_poll h self pid st =
         Some (Inr (response_content audio),
               st\<lparr>trace := trace st @ [Send (kokoro_status_request self pid), Send (kokoro_download_request url)]\<rparr>)"
proof -
  from poll_answerD [OF assms(1)] obtain r where
    r: "network h (trace st) (kokoro_status_request self pid) = Inr r" "response_json r = Some result"
    by blast
  show ?thesis
    by (subst kokoro_poll.simps) (simp add: http_send_def r assms(2-5))
qed

lemma kokoro_poll_fetches:
  assumes "poll_answer h (trace st) (kokoro_status_request self pid) = Some result"
    and "py_getitem result ''status'' = Inr (JStr ''succeeded'')"
    and "py_getitem result ''output'' = Inr url"
  shows "\<exists>outcome. kokoro_poll h self pid st =
         Some (outcome,
               st\<lparr>trace := trace st @ [Send (kokoro_status_request self pid), Send (kokoro_download_request url)]\<rparr>)"
proof -
  from poll_answerD [OF assms(1)] obtain r where
    r: "network h (trace st) (kokoro_status_request self pid) = Inr r" "response_json r = Some result"
    by blast
  show ?thesis
    by (subst kokoro_poll.simps) (simp add: http_send_def r assms(2-3) split: sum.splits)
qed

lemma kokoro_poll_failed:
  assumes "poll_answer h (trace st) (kokoro_status_request self pid) = Some result"
    and "py_getitem result ''status'' = Inr (JStr ''failed'')"
    and "py_get result ''error'' (JStr ''Unknown error'') = Inr err"
  shows "kokoro_poll h self pid st =
         Some (Inl (HTTPException 500 [Lit ''TTS failed: '', Fmt err]),
               st\<lparr>trace := trace st @ [Send (kokoro_status_request self pid)]\<rparr>)"
proof -
  from poll_answerD [OF assms(1)] obtain r where
    r: "network h (trace st) (kokoro_status_request self pid) = Inr r" "response_json r = Some result"
    by blast
  show ?thesis
    by (subst kokoro_poll.simps) (simp add: http_send_def r assms(2-3))
qed

lemma kokoro_poll_canceled:
  assumes "poll_answer h (trace st) (kokoro_status_request self pid) = Some result"
    and "py_getitem result ''status'' = Inr (JStr ''canceled'')"
  shows "kokoro_poll h self pid st =
         Some (Inl (HTTPException 500 [Lit ''TTS prediction was canceled'']),
               st\<lparr>trace := trace st @ [Send (kokoro_status_request self pid)]\<rparr>)"
proof -
  from poll_answerD [OF assms(1)] obtain r where
    r: "network h (trace st) (kokoro_status_request self pid) = Inr r" "response_json r = Some result"
    by blast
  show ?thesis
    by (subst kokoro_poll.simps) (simp add: http_send_def r assms(2))
qed

lemma kokoro_synthesize_accepted:
  assumes "kokoro_accepted h (trace st) (kokoro_create_request self input_text (kokoro_voice self voice) speed) pid"
  shows "kokoro_synthesize h self input_text voice speed st =
         kokoro_poll h self pid
           (st\<lparr>trace := trace st @ [Send (kokoro_create_request self input_text (kokoro_voice self voice) speed)]\<rparr>)"
  using assms
  by (auto simp: kokoro_synthesize_def kokoro_accepted_def http_send_def split: sum.splits option.splits)

lemma count_polls_trace:
  "count_list (polls_trace req d n) (Send req) = n"
  by (induction n) (simp_all add: polls_trace_def)

lemma kokoro_create_not_poll:
  "kokoro_create_request self input_text v speed \<noteq> kokoro_status_request self pid"
  by (simp add: kokoro_create_request_def kokoro_status_request_def)

lemma kokoro_download_not_poll:
  "kokoro_download_request url \<noteq> kokoro_status_request self pid"
  by (simp add: kokoro_status_request_def kokoro_download_request_def)

lemma kokoro_polling:
  fixes h self input_text voice speed st pid n
  defines "create \<equiv> kokoro_create_request self input_text (kokoro_voice self voice) speed"
    and "poll \<equiv> kokoro_status_request self pid"
  assumes acc: "kokoro_accepted h (trace st) create pid"
    and pend: "pending_polls h (trace st @ [Send create]) poll (1 / 2) kokoro_terminal n"
  shows "kokoro_synthesize h self input_text voice speed st =
         kokoro_poll h self pid (st\<lparr>trace := trace st @ [Send create] @ polls_trace poll (1 / 2) n\<rparr>)"
proof -
  let ?st1 = "st\<lparr>trace := trace st @ [Send create]\<rparr>"
  have "kokoro_synthesize h self input_text voice speed st = kokoro_poll h self pid ?st1"
    using acc unfolding create_def by (rule kokoro_synthesize_accepted)
  also have "\<dots> = kokoro_poll h self pid (?st1\<lparr>trace := trace ?st1 @ polls_trace poll (1 / 2) n\<rparr>)"
    unfolding poll_def by (rule kokoro_poll_pending) (use pend in \<open>simp add: poll_def\<close>)
  finally show ?thesis by simp
qed

lemma revai_poll_step:
  assumes "poll_status h (trace st) (revai_status_request self jid) = Some s"
    and "s \<notin> set revai_terminal"
  shows "revai_poll h self jid st =
         revai_poll h self jid
           (st\<lparr>trace := trace st @ [Send (revai_status_request self jid), Sleep 1]\<rparr>)"
proof -
  from poll_statusD [OF assms(1)] obtain r result where
    r: "network h (trace st) (revai_status_request self jid) = Inr r"
    "response_json r = Some result" "py_getitem result ''status'' = Inr s" by blast
  from assms(2) have s: "s \<noteq> JStr ''transcribed''" "s \<noteq> JStr ''failed''"
    by (auto simp: revai_terminal_def)
  show ?thesis
    by (subst revai_poll.simps) (simp add: http_send_def asyncio_sleep_def r s)
qed

lemma revai_poll_pending:
  "pending_polls h (trace st) (revai_status_request self jid) 1 revai_terminal n \<Longrightarrow>
   revai_poll h self jid st =
   revai_poll h self jid (st\<lparr>trace := trace st @ polls_trace (revai_status_request self jid) 1 n\<rparr>)"
proof (induction n arbitrary: st)
  case 0
  then show ?case by (simp add: polls_trace_def)
next
  case (Suc n)
  let ?req = "revai_status_request self jid"
  from Suc.prems obtain s where s: "poll_status h (trace st) ?req = Some s" "s \<notin> set revai_terminal"
    and rest: "pending_polls h (trace st @ [Send ?req, Sleep 1]) ?req 1 revai_terminal n"
    by (auto split: option.splits)
  let ?st1 = "st\<lparr>trace := trace st @ [Send ?req, Sleep 1]\<rparr>"
  have "revai_poll h self jid st = revai_poll h self jid ?st1"
    by (rule revai_poll_step [OF s])
  also have "\<dots> = revai_poll h self jid (?st1\<lparr>trace := trace ?st1 @ polls_trace ?req 1 n\<rparr>)"
    by (rule Suc.IH) (simp add: rest)
  finally show ?case by (simp add: polls_trace_Suc)
qed

lemma revai_poll_transcribed:
  assumes "poll_answer h (trace st) (revai_status_request self jid) = Some result"
    and "py_getitem result ''status'' = Inr (JStr ''transcribed'')"
    and "network h (trace st @ [Send (revai_status_request self jid)]) (revai_transcript_request self jid) = Inr tr"
    and "response_json tr = Some transcript_data"
    and "revai_extract_text transcript_data = Inr v"
  shows "revai_poll h self jid st =
         Some (Inr v,
               st\<lparr>trace := trace st @ [Send (revai_status_request self jid), Send (revai_transcript_request self jid)]\<rparr>)"
proof -
  from poll_answerD [OF assms(1)] obtain r where
    r: "network h (trace st) (revai_status_request self jid) = Inr r" "response_json r = Some result"
    by blast
  show ?thesis
    by (subst revai_poll.simps) (simp add: http_send_def r assms(2-5))
qed

lemma revai_poll_fetches:
  assumes "poll_answer h (trace st) (revai_status_request self jid) = Some result"
    and "py_getitem result ''status'' = Inr (JStr ''transcribed'')"
  shows "\<exists>outcome. revai_poll h self jid st =
         Some (outcome,
               st\<lparr>trace := trace st @ [Send (revai_status_request self jid), Send (revai_transcript_request self jid)]\<rparr>)"
proof -
  from poll_answerD [OF assms(1)] obtain r where
    r: "network h (trace st) (revai_status_request self jid) = Inr r" "response_json r = Some result"
    by blast
  show ?thesis
    by (subst revai_poll.simps)
      (simp add: http_send_def r assms(2) split: sum.splits option.splits)
qed

lemma revai_poll_failed:
  assumes "poll_answer h (trace st) (revai_status_request self jid) = Some result"
    and "py_getitem result ''status'' = Inr (JStr ''failed'')"
  shows "revai_poll h self jid st =
         Some (Inl (HTTPException 500 [Lit ''Rev.ai transcription failed'']),
               st\<lparr>trace := trace st @ [Send (revai_status_request self jid)]\<rparr>)"
proof -
  from poll_answerD [OF assms(1)] obtain r where
    r: "network h (trace st) (revai_status_request self jid) = Inr r" "response_json r = Some result"
    by blast
  show ?thesis
    by (subst revai_poll.simps) (simp add: http_send_def r assms(2))
qed

lemma revai_transcribe_accepted:
  assumes "revai_accepted h (trace st) (revai_job_request self audio filename ctype) jid"
  shows "revai_transcribe h self audio filename ctype st =
         revai_poll h self jid
           (st\<lparr>trace := trace st @ [Send (revai_job_request self audio filename ctype)]\<rparr>)"
  using assms
  by (auto simp: revai_transcribe_def revai_accepted_def http_send_def split: sum.splits option.splits)

lemma revai_create_not_poll:
  "revai_job_request self audio filename ctype \<noteq> revai_status_request self jid"
  by (simp add: revai_job_request_def revai_status_request_def)

lemma revai_transcript_not_poll:
  "revai_transcript_request self jid \<noteq> revai_status_request self jid"
  by (simp add: revai_status_request_def revai_transcript_request_def)

lemma revai_polling:
  fixes h self audio filename ctype st jid n
  defines "create \<equiv> revai_job_request self audio filename ctype"
    and "poll \<equiv> revai_status_request self jid"
  assumes acc: "revai_accepted h (trace st) create jid"
    and pend: "pending_polls h (trace st @ [Send create]) poll 1 revai_terminal n"
  shows "revai_transcribe h self audio filename ctype st =
         revai_poll h self jid (st\<lparr>trace := trace st @ [Send create] @ polls_trace poll 1 n\<rparr>)"
proof -
  let ?st1 = "st\<lparr>trace := trace st @ [Send create]\<rparr>"
  have "revai_transcribe h self audio filename ctype st = revai_poll h self jid ?st1"
    using acc unfolding create_def by (rule revai_transcribe_accepted)
  also have "\<dots> = revai_poll h self jid (?st1\<lparr>trace := trace ?st1 @ polls_trace poll 1 n\<rparr>)"
    unfolding poll_def by (rule revai_poll_pending) (use pend in \<open>simp add: poll_def\<close>)
  finally show ?thesis by simp
qed

text \<open>
  C1. When the backend accepts the submission, answers \<open>n\<close> status polls with a pending
  status and the next one with a terminal status, the async provider (Kokoro, sleeping
  0.5 s between polls; Rev.ai, sleeping 1 s) sends exactly \<open>n + 1\<close> status polls. On the
  success status it then sends the one request that fetches the result, whatever the
  answer to it, and returns the result when the fetch succeeds; on a failure status it
  raises the failure error, and the poll that reported the failure is the last request.
\<close>

theorem async_polls_N_plus_1:
  fixes h :: host and st :: io and n m :: nat
    and kself :: ReplicateKokoroProvider and input_text :: unicode and voice :: string and speed :: rat and pid :: json
    and rself :: RevAIProvider and audio :: bytes and filename ctype :: string and jid :: json
  defines "kcreate \<equiv> kokoro_create_request kself input_text (kokoro_voice kself voice) speed"
    and "kpoll \<equiv> kokoro_status_request kself pid"
    and "rcreate \<equiv> revai_job_request rself audio filename ctype"
    and "rpoll \<equiv> revai_status_request rself jid"
  defines "krun \<equiv> [Send kcreate] @ polls_trace kpoll (1 / 2) n @ [Send kpoll]"
    and "rrun \<equiv> [Send rcreate] @ polls_trace rpoll 1 m @ [Send rpoll]"
  shows
    "(kokoro_accepted h (trace st) kcreate pid
        \<and> pending_polls h (trace st @ [Send kcreate]) kpoll (1 / 2) kokoro_terminal n
        \<and> poll_answer h (trace st @ [Send kcreate] @ polls_trace kpoll (1 / 2) n) kpoll = Some result
      \<longrightarrow> count_list krun (Send kpoll) = n + 1
        \<and> (py_getitem result ''status'' = Inr (JStr ''succeeded'')
             \<and> py_getitem result ''output'' = Inr url
           \<longrightarrow> (\<exists>outcome. kokoro_synthesize h kself input_text voice speed st =
                 Some (outcome, st\<lparr>trace := trace st @ krun @ [Send (kokoro_download_request url)]\<rparr>)))
        \<and> (py_getitem result ''status'' = Inr (JStr ''succeeded'')
             \<and> py_getitem result ''output'' = Inr url
             \<and> network h (trace st @ krun) (kokoro_download_request url) = Inr audio_response
             \<and> status_code audio_response = 200
           \<longrightarrow> kokoro_synthesize h kself input_text voice speed st =
                 Some (Inr (response_content audio_response),
                       st\<lparr>trace := trace st @ krun @ [Send (kokoro_download_request url)]\<rparr>)
               \<and> count_list (krun @ [Send (kokoro_download_request url)]) (Send kpoll) = n + 1)
        \<and> (py_getitem result ''status'' = Inr (JStr ''failed'')
             \<and> py_get result ''error'' (JStr ''Unknown error'') = Inr err
           \<longrightarrow> kokoro_synthesize h kself input_text voice speed st =
                 Some (Inl (HTTPException 500 [Lit ''TTS failed: '', Fmt err]),
                       st\<lparr>trace := trace st @ krun\<rparr>))
        \<and> (py_getitem result ''status'' = Inr (JStr ''canceled'')
           \<longrightarrow> kokoro_synthesize h kself input_text voice speed st =
                 Some (Inl (HTTPException 500 [Lit ''TTS prediction was canceled'']),
                       st\<lparr>trace := trace st @ krun\<rparr>)))
     \<and> (revai_accepted h (trace st) rcreate jid
        \<and> pending_polls h (trace st @ [Send rcreate]) rpoll 1 revai_terminal m
        \<and> poll_answer h (trace st @ [Send rcreate] @ polls_trace rpoll 1 m) rpoll = Some status_data
      \<longrightarrow> count_list rrun (Send rpoll) = m + 1
        \<and> (py_getitem status_data ''status'' = Inr (JStr ''transcribed'')
           \<longrightarrow> (\<exists>outcome. revai_transcribe h rself audio filename ctype st =
                 Some (outcome, st\<lparr>trace := trace st @ rrun @ [Send (revai_transcript_request rself jid)]\<rparr>)))
        \<and> (py_getitem status_data ''status'' = Inr (JStr ''transcribed'')
             \<and> network h (trace st @ rrun) (revai_transcript_request rself jid) = Inr transcript_response
             \<and> response_json transcript_response = Some transcript_data
             \<and> revai_extract_text transcript_data = Inr v
           \<longrightarrow> revai_transcribe h rself audio filename ctype st =
                 Some (Inr v, st\<lparr>trace := trace st @ rrun @ [Send (revai_transcript_request rself jid)]\<rparr>)
               \<and> count_list (rrun @ [Send (revai_transcript_request rself jid)]) (Send rpoll) = m + 1)
        \<and> (py_getitem status_data ''status'' = Inr (JStr ''failed'')
           \<longrightarrow> revai_transcribe h rself audio filename ctype st =
                 Some (Inl (HTTPException 500 [Lit ''Rev.ai transcription failed'']),
                       st\<lparr>trace := trace st @ rrun\<rparr>)))"
proof (intro conjI impI; (elim conjE)?)
  show "count_list krun (Send kpoll) = n + 1"
    using kokoro_create_not_poll [of kself input_text "kokoro_voice kself voice" speed pid]
    by (simp add: krun_def kcreate_def kpoll_def count_polls_trace)
  show "count_list rrun (Send rpoll) = m + 1"
    using revai_create_not_poll [of rself audio filename ctype jid]
    by (simp add: rrun_def rcreate_def rpoll_def count_polls_trace)
  show "count_list (krun @ [Send (kokoro_download_request url)]) (Send kpoll) = n + 1"
    using kokoro_create_not_poll [of kself input_text "kokoro_voice kself voice" speed pid]
      kokoro_download_not_poll [of url kself pid]
    by (simp add: krun_def kcreate_def kpoll_def count_polls_trace)
  show "count_list (rrun @ [Send (revai_transcript_request rself jid)]) (Send rpoll) = m + 1"
    using revai_create_not_poll [of rself audio filename ctype jid]
      revai_transcript_not_poll [of rself jid]
    by (simp add: rrun_def rcreate_def rpoll_def count_polls_trace)
next
  assume acc: "kokoro_accepted h (trace st) kcreate pid"
    and pend: "pending_polls h (trace st @ [Send kcreate]) kpoll (1 / 2) kokoro_terminal n"
    and ans: "poll_answer h (trace st @ [Send kcreate] @ polls_trace kpoll (1 / 2) n) kpoll = Some result"
  let ?st = "st\<lparr>trace := trace st @ [Send kcreate] @ polls_trace kpoll (1 / 2) n\<rparr>"
  have run: "kokoro_synthesize h kself input_text voice speed st = kokoro_poll h kself pid ?st"
    using acc pend unfolding kcreate_def kpoll_def by (rule kokoro_polling)
  have ans': "poll_answer h (trace ?st) (kokoro_status_request kself pid) = Some result"
    using ans by (simp add: kpoll_def)
  {
    assume "py_getitem result ''status'' = Inr (JStr ''succeeded'')"
      and "py_getitem result ''output'' = Inr url"
    then show "\<exists>outcome. kokoro_synthesize h kself input_text voice speed st =
                 Some (outcome, st\<lparr>trace := trace st @ krun @ [Send (kokoro_download_request url)]\<rparr>)"
      using kokoro_poll_fetches [OF ans', of url]
      by (simp add: run krun_def kpoll_def)
  }
  {
    assume "py_getitem result ''status'' = Inr (JStr ''succeeded'')"
      and "py_getitem result ''output'' = Inr url"
      and "network h (trace st @ krun) (kokoro_download_request url) = Inr audio_response"
      and "status_code audio_response = 200"
    then show "kokoro_synthesize h kself input_text voice speed st =
                 Some (Inr (response_content audio_response),
                       st\<lparr>trace := trace st @ krun @ [Send (kokoro_download_request url)]\<rparr>)"
      using kokoro_poll_succeeded [OF ans', of url audio_response]
      by (simp add: run krun_def kpoll_def)
  }
  {
    assume "py_getitem result ''status'' = Inr (JStr ''failed'')"
      and "py_get result ''error'' (JStr ''Unknown error'') = Inr err"
    then show "kokoro_synthesize h kself input_text voice speed st =
                 Some (Inl (HTTPException 500 [Lit ''TTS failed: '', Fmt err]),
                       st\<lparr>trace := trace st @ krun\<rparr>)"
      using kokoro_poll_failed [OF ans', of err]
      by (simp add: run krun_def kpoll_def)
  }
  {
    assume "py_getitem result ''status'' = Inr (JStr ''canceled'')"
    then show "kokoro_synthesize h kself input_text voice speed st =
                 Some (Inl (HTTPException 500 [Lit ''TTS prediction was canceled'']),
                       st\<lparr>trace := trace st @ krun\<rparr>)"
      using kokoro_poll_canceled [OF ans']
      by (simp add: run krun_def kpoll_def)
  }
next
  assume acc: "revai_accepted h (trace st) rcreate jid"
    and pend: "pending_polls h (trace st @ [Send rcreate]) rpoll 1 revai_terminal m"
    and ans: "poll_answer h (trace st @ [Send rcreate] @ polls_trace rpoll 1 m) rpoll = Some status_data"
  let ?st = "st\<lparr>trace := trace st @ [Send rcreate] @ polls_trace rpoll 1 m\<rparr>"
  have run: "revai_transcribe h rself audio filename ctype st = revai_poll h rself jid ?st"
    using acc pend unfolding rcreate_def rpoll_def by (rule revai_polling)
  have ans': "poll_answer h (trace ?st) (revai_status_request rself jid) = Some status_data"
    using ans by (simp add: rpoll_def)
  {
    assume "py_getitem status_data ''status'' = Inr (JStr ''transcribed'')"
    then show "\<exists>outcome. revai_transcribe h rself audio filename ctype st =
                 Some (outcome, st\<lparr>trace := trace st @ rrun @ [Send (revai_transcript_request rself jid)]\<rparr>)"
      using revai_poll_fetches [OF ans']
      by (simp add: run rrun_def rpoll_def)
  }
  {
    assume "py_getitem status_data ''status'' = Inr (JStr ''transcribed'')"
      and "network h (trace st @ rrun) (revai_transcript_request rself jid) = Inr transcript_response"
      and "response_json transcript_response = Some transcript_data"
      and "revai_extract_text transcript_data = Inr v"
    then show "revai_transcribe h rself audio filename ctype st =
                 Some (Inr v, st\<lparr>trace := trace st @ rrun @ [Send (revai_transcript_request rself jid)]\<rparr>)"
      using revai_poll_transcribed [OF ans', of transcript_response transcript_data v]
      by (simp add: run rrun_def rpoll_def)
  }
  {
    assume "py_getitem status_data ''status'' = Inr (JStr ''failed'')"
    then show "revai_transcribe h rself audio filename ctype st =
                 Some (Inl (HTTPException 500 [Lit ''Rev.ai transcription failed'']),
                       st\<lparr>trace := trace st @ rrun\<rparr>)"
      using revai_poll_failed [OF ans']
      by (simp add: run rrun_def rpoll_def)
  }
qed

lemma demo_network_simps:
  "network (demo_host final) = demo_network final"
  by (simp add: demo_host_def)

theorem async_polls_N_plus_1_witness:
  "kokoro_synthesize (demo_host kokoro_succeeded) demo_kokoro demo_text ''Nova'' 1 io0 =
     Some (Inr ''RIFF'',
           io0\<lparr>trace :=
             [Send (kokoro_create_request demo_kokoro demo_text ''af_nova'' 1),
              Send (kokoro_status_request demo_kokoro (JStr ''p1'')), Sleep (1 / 2),
              Send (kokoro_status_request demo_kokoro (JStr ''p1'')), Sleep (1 / 2),
              Send (kokoro_status_request demo_kokoro (JStr ''p1'')),
              Send (kokoro_download_request (JStr ''https://replicate.delivery/out.wav''))]\<rparr>)
   \<and> kokoro_synthesize (demo_host job_failed) demo_kokoro demo_text ''Nova'' 1 io0 =
     Some (Inl (HTTPException 500 [Lit ''TTS failed: '', Fmt (JStr ''out of memory'')]),
           io0\<lparr>trace :=
             [Send (kokoro_create_request demo_kokoro demo_text ''af_nova'' 1),
              Send (kokoro_status_request demo_kokoro (JStr ''p1'')), Sleep (1 / 2),
              Send (kokoro_status_request demo_kokoro (JStr ''p1'')), Sleep (1 / 2),
              Send (kokoro_status_request demo_kokoro (JStr ''p1''))]\<rparr>)
   \<and> revai_transcribe (demo_host job_failed) demo_revai ''RIFF'' ''a.wav'' ''audio/wav'' io0 =
     Some (Inl (HTTPException 500 [Lit ''Rev.ai transcription failed'']),
           io0\<lparr>trace :=
             [Send (revai_job_request demo_revai ''RIFF'' ''a.wav'' ''audio/wav''),
              Send (revai_status_request demo_revai (JStr ''j1'')), Sleep 1,
              Send (revai_status_request demo_revai (JStr ''j1''))]\<rparr>)
   \<and> revai_transcribe (demo_host job_transcribed) demo_revai ''RIFF'' ''a.wav'' ''audio/wav'' io0 =
     Some (Inr (JStr ''Hello world foo bar''),
           io0\<lparr>trace :=
             [Send (revai_job_request demo_revai ''RIFF'' ''a.wav'' ''audio/wav''),
              Send (revai_status_request demo_revai (JStr ''j1'')), Sleep 1,
              Send (revai_status_request demo_revai (JStr ''j1'')),
              Send (revai_transcript_request demo_revai (JStr ''j1''))]\<rparr>)"
proof -
  let ?kc = "kokoro_create_request demo_kokoro demo_text (kokoro_voice demo_kokoro ''Nova'') 1"
  let ?kp = "kokoro_status_request demo_kokoro (JStr ''p1'')"
  let ?rc = "revai_job_request demo_revai ''RIFF'' ''a.wav'' ''audio/wav''"
  let ?rp = "revai_status_request demo_revai (JStr ''j1'')"
  have voice: "kokoro_voice demo_kokoro ''Nova'' = ''af_nova''"
    by (simp add: kokoro_voice_def demo_kokoro_def ReplicateKokoroProvider_init_def getenv_def
        demo_host_def py_lower_def lower_char_def char_of_def)
  have kc: "req_method ?kc = POST" "req_url ?kc = [Lit ''https://api.replicate.com/v1/predictions'']"
    by (simp_all add: kokoro_create_request_def)
  have kp: "req_method ?kp = GET" "req_url ?kp = [Lit ''https://api.replicate.com/v1/predictions/'', Fmt (JStr ''p1'')]"
    by (simp_all add: kokoro_status_request_def)
  have rc: "req_method ?rc = POST" "req_url ?rc = [Lit ''https://api.rev.ai/speechtotext/v1/jobs'']"
    by (simp_all add: revai_job_request_def demo_revai_def RevAIProvider_init_def)
  have rp: "req_method ?rp = GET" "req_url ?rp = [Lit ''https://api.rev.ai/speechtotext/v1/jobs/'', Fmt (JStr ''j1'')]"
    by (simp_all add: revai_status_request_def demo_revai_def RevAIProvider_init_def)
  have dl: "req_url (kokoro_download_request (JStr ''https://replicate.delivery/out.wav'')) =
              [Fmt (JStr ''https://replicate.delivery/out.wav'')]"
    "req_method (kokoro_download_request (JStr ''https://replicate.delivery/out.wav'')) = GET"
    by (simp_all add: kokoro_download_request_def)
  have k_acc: "kokoro_accepted (demo_host final) (trace io0) ?kc (JStr ''p1'')" for final
    by (simp add: kokoro_accepted_def demo_network_simps demo_network_def kc json_response_def)
  have k_pend: "pending_polls (demo_host final) (trace io0 @ [Send ?kc]) ?kp (1 / 2) kokoro_terminal (Suc (Suc 0))" for final
    by (simp add: poll_status_def poll_answer_def demo_network_simps demo_network_def kp
        json_response_def io0_def kokoro_terminal_def)
  have k_ans: "poll_answer (demo_host final) (trace io0 @ [Send ?kc] @ polls_trace ?kp (1 / 2) (Suc (Suc 0))) ?kp = Some final" for final
    by (simp add: poll_answer_def demo_network_simps demo_network_def kp json_response_def io0_def
        polls_trace_def)
  have k_dl: "network (demo_host final)
        (trace io0 @ [Send ?kc] @ polls_trace ?kp (1 / 2) (Suc (Suc 0)) @ [Send ?kp])
        (kokoro_download_request (JStr ''https://replicate.delivery/out.wav'')) =
      Inr \<lparr>status_code = 200, response_text = [], response_content = ''RIFF'', response_json = None\<rparr>" for final
    by (simp add: demo_network_simps demo_network_def dl)
  have r_acc: "revai_accepted (demo_host final) (trace io0) ?rc (JStr ''j1'')" for final
    by (simp add: revai_accepted_def demo_network_simps demo_network_def rc json_response_def)
  have r_pend: "pending_polls (demo_host final) (trace io0 @ [Send ?rc]) ?rp 1 revai_terminal (Suc 0)" for final
    by (simp add: poll_status_def poll_answer_def demo_network_simps demo_network_def rp
        json_response_def io0_def revai_terminal_def)
  have r_ans: "poll_answer (demo_host final) (trace io0 @ [Send ?rc] @ polls_trace ?rp 1 (Suc 0)) ?rp = Some final" for final
    by (simp add: poll_answer_def demo_network_simps demo_network_def rp json_response_def io0_def
        polls_trace_def)
  have tq: "req_method (revai_transcript_request demo_revai (JStr ''j1'')) = GET"
    "req_url (revai_transcript_request demo_revai (JStr ''j1'')) =
       [Lit ''https://api.rev.ai/speechtotext/v1/jobs/'', Fmt (JStr ''j1''), Lit ''/transcript'']"
    by (simp_all add: revai_transcript_request_def demo_revai_def RevAIProvider_init_def)
  have r_tr: "network (demo_host final)
        (trace io0 @ [Send ?rc] @ polls_trace ?rp 1 (Suc 0) @ [Send ?rp])
        (revai_transcript_request demo_revai (JStr ''j1'')) = Inr (json_response 200 hello_transcript)" for final
    by (simp add: demo_network_simps demo_network_def tq)
  have hello: "revai_extract_text hello_transcript = Inr (JStr ''Hello world foo bar'')"
    by (simp add: revai_extract_text_def hello_transcript_def py_join_def)
  note good = async_polls_N_plus_1 [where h = "demo_host job_transcribed" and st = io0
      and rself = demo_revai and audio = "''RIFF''" and filename = "''a.wav''" and ctype = "''audio/wav''"
      and jid = "JStr ''j1''" and m = "Suc 0" and status_data = job_transcribed
      and transcript_response = "json_response 200 hello_transcript"
      and transcript_data = hello_transcript and v = "JStr ''Hello world foo bar''"]
  note ok = async_polls_N_plus_1 [of "demo_host kokoro_succeeded" io0 demo_kokoro demo_text "''Nova''" 1
      "JStr ''p1''" "Suc (Suc 0)" kokoro_succeeded "JStr ''https://replicate.delivery/out.wav''"
      "\<lparr>status_code = 200, response_text = [], response_content = ''RIFF'', response_json = None\<rparr>"]
  note bad = async_polls_N_plus_1 [of "demo_host job_failed" io0 demo_kokoro demo_text "''Nova''" 1
      "JStr ''p1''" "Suc (Suc 0)" job_failed _ _ "JStr ''out of memory''"
      demo_revai "''RIFF''" "''a.wav''" "''audio/wav''" "JStr ''j1''" "Suc 0" job_failed]
  have 1: "kokoro_synthesize (demo_host kokoro_succeeded) demo_kokoro demo_text ''Nova'' 1 io0 =
     Some (Inr ''RIFF'',
           io0\<lparr>trace := trace io0 @ ([Send ?kc] @ polls_trace ?kp (1 / 2) (Suc (Suc 0)) @ [Send ?kp])
                @ [Send (kokoro_download_request (JStr ''https://replicate.delivery/out.wav''))]\<rparr>)"
    using ok k_acc [of kokoro_succeeded] k_pend [of kokoro_succeeded] k_ans [of kokoro_succeeded]
      k_dl [of kokoro_succeeded]
    by (simp add: kokoro_succeeded_def)
  have 2: "kokoro_synthesize (demo_host job_failed) demo_kokoro demo_text ''Nova'' 1 io0 =
     Some (Inl (HTTPException 500 [Lit ''TTS failed: '', Fmt (JStr ''out of memory'')]),
           io0\<lparr>trace := trace io0 @ ([Send ?kc] @ polls_trace ?kp (1 / 2) (Suc (Suc 0)) @ [Send ?kp])\<rparr>)"
    using bad k_acc [of job_failed] k_pend [of job_failed] k_ans [of job_failed]
    by (simp add: job_failed_def)
  have 3: "revai_transcribe (demo_host job_failed) demo_revai ''RIFF'' ''a.wav'' ''audio/wav'' io0 =
     Some (Inl (HTTPException 500 [Lit ''Rev.ai transcription failed'']),
           io0\<lparr>trace := trace io0 @ ([Send ?rc] @ polls_trace ?rp 1 (Suc 0) @ [Send ?rp])\<rparr>)"
    using bad r_acc [of job_failed] r_pend [of job_failed] r_ans [of job_failed]
    by (simp add: job_failed_def)
  have 4: "revai_transcribe (demo_host job_transcribed) demo_revai ''RIFF'' ''a.wav'' ''audio/wav'' io0 =
     Some (Inr (JStr ''Hello world foo bar''),
           io0\<lparr>trace := trace io0 @ ([Send ?rc] @ polls_trace ?rp 1 (Suc 0) @ [Send ?rp])
                @ [Send (revai_transcript_request demo_revai (JStr ''j1''))]\<rparr>)"
    using good r_acc [of job_transcribed] r_pend [of job_transcribed] r_ans [of job_transcribed]
      r_tr [of job_transcribed] hello
    by (simp add: job_transcribed_def json_response_def)
  from 1 2 3 4 show ?thesis
    by (simp add: voice polls_trace_def io0_def)
qed

subsection \<open>The endpoints without a provider\<close>

text \<open>
  C2 (as the code has it). With no active provider, \<^verbatim>\<open>POST /v1/audio/speech\<close> and
  \<^verbatim>\<open>POST /v1/audio/transcriptions\<close> answer 500 with a detail that says that no
  provider is configured; nothing is sent, slept or started.
\<close>

theorem no_provider_is_500:
  "create_speech h None request st =
     Some (Inl (HTTPException 500
       [Lit ''No TTS provider configured. Set TTS_PROVIDER and required configuration.'']), st)
   \<and> create_transcription h None file st =
     Some (Inl (HTTPException 500
       [Lit ''No STT provider configured. Set STT_PROVIDER and required API key.'']), st)"
  by (simp add: create_speech_def create_transcription_def)

text \<open>
  C2 as stated, counterexample: on the sample host, the status of that answer is not
  503, in either service.
\<close>

theorem no_provider_is_not_503:
  "error_status (create_speech (demo_host JNull) None (demo_request demo_text) io0) \<noteq> Some 503
   \<and> error_status (create_transcription (demo_host JNull) None demo_upload io0) \<noteq> Some 503"
  by (simp add: create_speech_def create_transcription_def error_status_def)

subsection \<open>Health\<close>

text \<open>
  C3 at the state without a provider: the speech-to-text service reports \<open>healthy\<close>,
  where the text-to-speech service reports \<open>degraded\<close>; name and flag are \<open>null\<close> and
  \<open>false\<close> in both.
\<close>

theorem stt_health_without_provider:
  "stt_health_check None =
     JObj [(''status'', JStr ''healthy''), (''provider'', JNull), (''provider_configured'', JBool False)]
   \<and> tts_health_check h None =
     JObj [(''status'', JStr ''degraded''), (''provider'', JNull), (''provider_configured'', JBool False)]"
  by (simp add: stt_health_check_def tts_health_check_def)

subsection \<open>Blank input\<close>

lemma py_strip_whitespace: "list_all py_isspace s \<Longrightarrow> py_strip s = []"
  by (auto simp: py_strip_def list_all_iff dest: set_dropWhileD)

text \<open>Stripping leaves nothing exactly when every code point is whitespace.\<close>

lemma py_strip_empty_iff: "py_strip s = [] \<longleftrightarrow> list_all py_isspace s"
proof
  assume "py_strip s = []"
  then have all: "\<forall>x\<in>set (dropWhile py_isspace s). py_isspace x"
    by (simp add: py_strip_def)
  have "dropWhile py_isspace s = []"
  proof (cases "dropWhile py_isspace s")
    case Nil
    then show ?thesis .
  next
    case (Cons x xs)
    then have "dropWhile py_isspace s \<noteq> []" by simp
    then have "\<not> py_isspace (hd (dropWhile py_isspace s))"
      by (rule hd_dropWhile)
    with all Cons show ?thesis by simp
  qed
  then show "list_all py_isspace s"
    by (simp add: list_all_iff)
next
  assume "list_all py_isspace s"
  then show "py_strip s = []" by (rule py_strip_whitespace)
qed

text \<open>
  C4. When the input text is empty or holds whitespace only (every code point of it is
  one that \<^verbatim>\<open>str.strip()\<close> removes), \<^verbatim>\<open>POST /v1/audio/speech\<close> answers 400 whatever
  the active provider is, and the state is untouched: the result does not depend on the
  provider's \<open>tts_synthesize\<close>, which is not run.
\<close>

theorem blank_input_is_400:
  "list_all py_isspace (request_input request) \<Longrightarrow>
   create_speech h (Some p) request st =
     Some (Inl (HTTPException 400 [Lit ''Input text is required'']), st)"
  by (simp add: create_speech_def py_strip_whitespace)

theorem blank_input_is_400_witness:
  "list_all py_isspace [0x20, 0x09, 0xA0, 0x85, 0x3000, 0x0A]
   \<and> create_speech (demo_host JNull) (Some (piper_provider (PiperProvider_init (demo_host JNull))))
        (demo_request [0x20, 0x09, 0xA0, 0x85, 0x3000, 0x0A]) io0 =
      Some (Inl (HTTPException 400 [Lit ''Input text is required'']), io0)"
proof -
  have ws: "list_all py_isspace (request_input (demo_request [0x20, 0x09, 0xA0, 0x85, 0x3000, 0x0A]))"
    by (simp add: demo_request_def py_isspace_def)
  from ws blank_input_is_400 [OF ws] show ?thesis
    by (simp add: demo_request_def)
qed

subsection \<open>Selection of the provider\<close>

text \<open>
  C5. \<^verbatim>\<open>get_provider\<close> of both services, on the lowercased identifier: outside the
  registry it raises the error that names the identifier and lists the registry; in
  the registry with a provider that is not configured it raises the error that says
  so; otherwise it returns the constructed provider.
\<close>

theorem get_provider_outcomes:
  fixes h :: host
  defines "tts \<equiv> py_lower (getenv h ''TTS_PROVIDER'' ''piper'')"
    and "stt \<equiv> py_lower (getenv h ''STT_PROVIDER'' ''groq'')"
  shows
    "(tts \<notin> {''piper'', ''kokoro''} \<longrightarrow>
        tts_get_provider h =
          Inl (ValueError (''Unknown TTS provider: '' @ tts @ ''. Available: piper, kokoro'')))
     \<and> (map_of TTS_PROVIDERS tts = Some cls \<and> \<not> tts_is_configured (cls h) h \<longrightarrow>
        tts_get_provider h =
          Inl (ValueError (''TTS provider '' @ [CHR 0x27] @ tts @ [CHR 0x27]
                           @ '' is not configured. Check requirements.'')))
     \<and> (map_of TTS_PROVIDERS tts = Some cls \<and> tts_is_configured (cls h) h \<longrightarrow>
        tts_get_provider h = Inr (cls h))
     \<and> (tts \<in> {''piper'', ''kokoro''} \<longrightarrow> map_of TTS_PROVIDERS tts \<noteq> None)
     \<and> (stt \<notin> {''groq'', ''revai'', ''deepgram''} \<longrightarrow>
        stt_get_provider h =
          Inl (ValueError (''Unknown STT provider: '' @ stt @ ''. Available: groq, revai, deepgram'')))
     \<and> (map_of STT_PROVIDERS stt = Some scls \<and> \<not> stt_is_configured (scls h) \<longrightarrow>
        stt_get_provider h =
          Inl (ValueError (''STT provider '' @ [CHR 0x27] @ stt @ [CHR 0x27]
                           @ '' is not configured. Check API key.'')))
     \<and> (map_of STT_PROVIDERS stt = Some scls \<and> stt_is_configured (scls h) \<longrightarrow>
        stt_get_provider h = Inr (scls h))
     \<and> (stt \<in> {''groq'', ''revai'', ''deepgram''} \<longrightarrow> map_of STT_PROVIDERS stt \<noteq> None)"
proof (intro conjI impI; (elim conjE)?)
  assume "tts \<notin> {''piper'', ''kokoro''}"
  then have "map_of TTS_PROVIDERS tts = None"
    by (simp add: TTS_PROVIDERS_def)
  then show "tts_get_provider h =
          Inl (ValueError (''Unknown TTS provider: '' @ tts @ ''. Available: piper, kokoro''))"
    unfolding tts_get_provider_def tts_def [symmetric]
    by (simp add: TTS_PROVIDERS_def)
next
  assume "map_of TTS_PROVIDERS tts = Some cls" "\<not> tts_is_configured (cls h) h"
  then show "tts_get_provider h =
          Inl (ValueError (''TTS provider '' @ [CHR 0x27] @ tts @ [CHR 0x27]
                           @ '' is not configured. Check requirements.''))"
    unfolding tts_get_provider_def tts_def [symmetric] by simp
next
  assume "map_of TTS_PROVIDERS tts = Some cls" "tts_is_configured (cls h) h"
  then show "tts_get_provider h = Inr (cls h)"
    unfolding tts_get_provider_def tts_def [symmetric] by simp
next
  assume "tts \<in> {''piper'', ''kokoro''}"
  then show "map_of TTS_PROVIDERS tts \<noteq> None"
    by (auto simp: TTS_PROVIDERS_def)
next
  assume "stt \<notin> {''groq'', ''revai'', ''deepgram''}"
  then have "map_of STT_PROVIDERS stt = None"
    by (simp add: STT_PROVIDERS_def)
  then show "stt_get_provider h =
          Inl (ValueError (''Unknown STT provider: '' @ stt @ ''. Available: groq, revai, deepgram''))"
    unfolding stt_get_provider_def stt_def [symmetric]
    by (simp add: STT_PROVIDERS_def)
next
  assume "map_of STT_PROVIDERS stt = Some scls" "\<not> stt_is_configured (scls h)"
  then show "stt_get_provider h =
          Inl (ValueError (''STT provider '' @ [CHR 0x27] @ stt @ [CHR 0x27]
                           @ '' is not configured. Check API key.''))"
    unfolding stt_get_provider_def stt_def [symmetric] by simp
next
  assume "map_of STT_PROVIDERS stt = Some scls" "stt_is_configured (scls h)"
  then show "stt_get_provider h = Inr (scls h)"
    unfolding stt_get_provider_def stt_def [symmetric] by simp
next
  assume "stt \<in> {''groq'', ''revai'', ''deepgram''}"
  then show "map_of STT_PROVIDERS stt \<noteq> None"
    by (auto simp: STT_PROVIDERS_def)
qed

theorem get_provider_outcomes_witness:
  "tts_get_provider (demo_host JNull) = Inr (kokoro_provider demo_kokoro)
   \<and> stt_get_provider (demo_host JNull) = Inr (revai_provider demo_revai)
   \<and> tts_get_provider unknown_provider_host =
       Inl (ValueError ''Unknown TTS provider: festival. Available: piper, kokoro'')
   \<and> stt_get_provider unknown_provider_host =
       Inl (ValueError ''Unknown STT provider: whisper. Available: groq, revai, deepgram'')
   \<and> tts_get_provider bare_host =
       Inl (ValueError (''TTS provider '' @ [CHR 0x27] @ ''piper'' @ [CHR 0x27]
                        @ '' is not configured. Check requirements.''))
   \<and> stt_get_provider bare_host =
       Inl (ValueError (''STT provider '' @ [CHR 0x27] @ ''groq'' @ [CHR 0x27]
                        @ '' is not configured. Check API key.''))"
proof -
  have names:
    "py_lower (getenv (demo_host JNull) ''TTS_PROVIDER'' ''piper'') = ''kokoro''"
    "py_lower (getenv (demo_host JNull) ''STT_PROVIDER'' ''groq'') = ''revai''"
    "py_lower (getenv unknown_provider_host ''TTS_PROVIDER'' ''piper'') = ''festival''"
    "py_lower (getenv unknown_provider_host ''STT_PROVIDER'' ''groq'') = ''whisper''"
    "py_lower (getenv bare_host ''TTS_PROVIDER'' ''piper'') = ''piper''"
    "py_lower (getenv bare_host ''STT_PROVIDER'' ''groq'') = ''groq''"
    by (simp_all add: getenv_def demo_host_def unknown_provider_host_def bare_host_def
        py_lower_def lower_char_def char_of_def)
  have classes:
    "map_of TTS_PROVIDERS ''kokoro'' = Some (\<lambda>h. kokoro_provider (ReplicateKokoroProvider_init h))"
    "map_of TTS_PROVIDERS ''piper'' = Some (\<lambda>h. piper_provider (PiperProvider_init h))"
    "map_of STT_PROVIDERS ''revai'' = Some (\<lambda>h. revai_provider (RevAIProvider_init h))"
    "map_of STT_PROVIDERS ''groq'' = Some (\<lambda>h. groq_provider (GroqProvider_init h))"
    by (simp_all add: TTS_PROVIDERS_def STT_PROVIDERS_def)
  have configured:
    "tts_is_configured (kokoro_provider (ReplicateKokoroProvider_init (demo_host JNull))) (demo_host JNull)"
    "stt_is_configured (revai_provider (RevAIProvider_init (demo_host JNull)))"
    "\<not> tts_is_configured (piper_provider (PiperProvider_init bare_host)) bare_host"
    "\<not> stt_is_configured (groq_provider (GroqProvider_init bare_host))"
    by (simp_all add: kokoro_provider_def revai_provider_def piper_provider_def groq_provider_def
        kokoro_is_configured_def piper_is_configured_def py_bool_opt_def
        ReplicateKokoroProvider_init_def RevAIProvider_init_def GroqProvider_init_def
        demo_host_def bare_host_def)
  note a = get_provider_outcomes [where h = "demo_host JNull"
      and cls = "\<lambda>h. kokoro_provider (ReplicateKokoroProvider_init h)"
      and scls = "\<lambda>h. revai_provider (RevAIProvider_init h)"]
  note b = get_provider_outcomes [where h = unknown_provider_host]
  note c = get_provider_outcomes [where h = bare_host
      and cls = "\<lambda>h. piper_provider (PiperProvider_init h)"
      and scls = "\<lambda>h. groq_provider (GroqProvider_init h)"]
  from a names classes configured
  have 1: "tts_get_provider (demo_host JNull) = Inr (kokoro_provider demo_kokoro)"
    "stt_get_provider (demo_host JNull) = Inr (revai_provider demo_revai)"
    by (simp_all add: demo_kokoro_def demo_revai_def)
  from b names
  have 2: "tts_get_provider unknown_provider_host =
       Inl (ValueError ''Unknown TTS provider: festival. Available: piper, kokoro'')"
    "stt_get_provider unknown_provider_host =
       Inl (ValueError ''Unknown STT provider: whisper. Available: groq, revai, deepgram'')"
    by simp_all
  from c names classes configured
  have 3: "tts_get_provider bare_host =
       Inl (ValueError (''TTS provider '' @ [CHR 0x27] @ ''piper'' @ [CHR 0x27]
                        @ '' is not configured. Check requirements.''))"
    "stt_get_provider bare_host =
       Inl (ValueError (''STT provider '' @ [CHR 0x27] @ ''groq'' @ [CHR 0x27]
                        @ '' is not configured. Check API key.''))"
    by simp_all
  from 1 2 3 show ?thesis by simp
qed

subsection \<open>Voices\<close>








lemma host_answering_network: "network (host_answering response) tr req = Inr response"
  by (simp add: host_answering_def)


subsection \<open>Rejected submissions\<close>

text \<open>
  C7. When the backend answers the submission with a status other than 201 (Kokoro) or
  other than 200 (Groq, Deepgram), the provider raises an \<open>HTTPException\<close> with that
  status and the body of the answer, after that single request.
\<close>

theorem submission_failure_is_passed_on:
  fixes h :: host and st :: io
    and kself :: ReplicateKokoroProvider and input_text :: unicode and voice :: string and speed :: rat
    and gself :: GroqProvider and dself :: DeepgramProvider
    and audio :: bytes and filename ctype :: string
  defines "kreq \<equiv> kokoro_create_request kself input_text (kokoro_voice kself voice) speed"
    and "greq \<equiv> groq_request gself audio filename ctype"
    and "dreq \<equiv> deepgram_request dself audio ctype"
  shows
    "(network h (trace st) kreq = Inr r \<and> status_code r \<noteq> 201
      \<longrightarrow> kokoro_synthesize h kself input_text voice speed st =
            Some (Inl (HTTPException (status_code r) [Lit (response_text r)]),
                  st\<lparr>trace := trace st @ [Send kreq]\<rparr>))
     \<and> (network h (trace st) greq = Inr r \<and> status_code r \<noteq> 200
      \<longrightarrow> groq_transcribe h gself audio filename ctype st =
            (Inl (HTTPException (status_code r) [Lit (response_text r)]),
             st\<lparr>trace := trace st @ [Send greq]\<rparr>))
     \<and> (network h (trace st) dreq = Inr r \<and> status_code r \<noteq> 200
      \<longrightarrow> deepgram_transcribe h dself audio filename ctype st =
            (Inl (HTTPException (status_code r) [Lit (response_text r)]),
             st\<lparr>trace := trace st @ [Send dreq]\<rparr>))"
  by (simp add: kokoro_synthesize_def groq_transcribe_def deepgram_transcribe_def http_send_def
      kreq_def greq_def dreq_def)

theorem submission_failure_is_passed_on_witness:
  "network (host_answering rate_limited) (trace io0)
       (kokoro_create_request demo_kokoro demo_text (kokoro_voice demo_kokoro ''nova'') 1) = Inr rate_limited
   \<and> status_code rate_limited \<noteq> 201 \<and> status_code rate_limited \<noteq> 200
   \<and> kokoro_synthesize (host_answering rate_limited) demo_kokoro demo_text ''nova'' 1 io0 =
       Some (Inl (HTTPException 429 [Lit ''rate limited'']),
             io0\<lparr>trace := [Send (kokoro_create_request demo_kokoro demo_text (kokoro_voice demo_kokoro ''nova'') 1)]\<rparr>)
   \<and> groq_transcribe (host_answering rate_limited) demo_groq ''RIFF'' ''a.wav'' ''audio/wav'' io0 =
       (Inl (HTTPException 429 [Lit ''rate limited'']),
        io0\<lparr>trace := [Send (groq_request demo_groq ''RIFF'' ''a.wav'' ''audio/wav'')]\<rparr>)
   \<and> deepgram_transcribe (host_answering rate_limited) demo_deepgram ''RIFF'' ''a.wav'' ''audio/wav'' io0 =
       (Inl (HTTPException 429 [Lit ''rate limited'']),
        io0\<lparr>trace := [Send (deepgram_request demo_deepgram ''RIFF'' ''audio/wav'')]\<rparr>)"
  using submission_failure_is_passed_on [where h = "host_answering rate_limited" and st = io0
      and r = rate_limited and kself = demo_kokoro and input_text = demo_text and voice = "''nova''"
      and speed = 1 and gself = demo_groq and dself = demo_deepgram and audio = "''RIFF''"
      and filename = "''a.wav''" and ctype = "''audio/wav''"]
  by (simp add: host_answering_network rate_limited_def io0_def)

subsection \<open>The temporary file of Piper\<close>

lemma piper_finally_removes: "files (piper_finally tmp_path st) tmp_path = None"
  by (simp add: piper_finally_def)

text \<open>
  When \<^verbatim>\<open>synthesize\<close> returns, on every exit path, the temporary file that it created
  does not exist; when the file cannot be created, the call raises and leaves the state
  as it was.
\<close>

lemma piper_temp_file_removed_at_return:
  "(named_temporary_file h (files st) = Inr tmp_path
      \<longrightarrow> files (snd (piper_synthesize h self input_text voice speed st)) tmp_path = None)
   \<and> (named_temporary_file h (files st) = Inl e
      \<longrightarrow> piper_synthesize h self input_text voice speed st = (Inl (Raised e), st))"
  by (simp add: piper_synthesize_def Let_def piper_finally_removes split: prod.splits)

text \<open>A process is left running by the one exit path on which \<^verbatim>\<open>communicate\<close> raises.\<close>

lemma piper_try_running:
  "running (snd (piper_try h model_or_name tmp_path input_text st)) =
     (case piper_process h [''piper'', ''--model'', model_or_name, ''--output_file'', tmp_path]
             input_text (files st) of
        CommunicateRaised e fs later \<Rightarrow> running st @ [later]
      | _ \<Rightarrow> running st)"
  by (simp add: piper_try_def Let_def split: proc_result.splits option.splits)

text \<open>
  C8 on the exit path of the timeout: Piper runs for more than 120 s, so that
  \<^verbatim>\<open>communicate\<close> raises \<^verbatim>\<open>TimeoutExpired\<close>. The call raises and has removed the
  temporary file, but it has not killed the process; once the process has written its
  output file, the temporary file of the call is on disk.
\<close>

theorem piper_timeout_leaves_temp_file:
  "named_temporary_file slow_piper_host (files io0) = Inr ''/tmp/tmp0.wav''
   \<and> fst (piper_synthesize slow_piper_host demo_piper demo_text ''nova'' 1 io0) =
       Inl (Raised TimeoutExpired)
   \<and> files (snd (piper_synthesize slow_piper_host demo_piper demo_text ''nova'' 1 io0))
        ''/tmp/tmp0.wav'' = None
   \<and> files (settle (snd (piper_synthesize slow_piper_host demo_piper demo_text ''nova'' 1 io0)))
        ''/tmp/tmp0.wav'' = Some ''RIFF''"
  by (simp add: piper_synthesize_def piper_try_def piper_finally_def get_voice_path_def Let_def
      settle_def slow_piper_host_def demo_host_def io0_def demo_piper_def PiperProvider_init_def)

subsection \<open>Answers without a transcript\<close>

lemma alternatives_lack_transcriptD:
  "alternatives_lack_transcript alternatives \<Longrightarrow>
   (if py_truthy alternatives
    then (case py_index0 alternatives of
            Inl e \<Rightarrow> Inl e
          | Inr alternative \<Rightarrow> py_get alternative ''transcript'' (JStr []))
    else Inr (JStr [])) = Inr (JStr [])"
  by (induction alternatives rule: alternatives_lack_transcript.induct) simp_all

lemma channels_lack_transcriptD:
  "channels_lack_transcript channels \<Longrightarrow>
   (if py_truthy channels
    then (case py_index0 channels of
            Inl e \<Rightarrow> Inl e
          | Inr channel \<Rightarrow>
              (case py_get channel ''alternatives'' (JArr []) of
                 Inl e \<Rightarrow> Inl e
               | Inr alternatives \<Rightarrow>
                   if py_truthy alternatives
                   then (case py_index0 alternatives of
                           Inl e \<Rightarrow> Inl e
                         | Inr alternative \<Rightarrow> py_get alternative ''transcript'' (JStr []))
                   else Inr (JStr [])))
    else Inr (JStr [])) = Inr (JStr [])"
proof (induction channels rule: channels_lack_transcript.induct)
  case (2 ch chs)
  show ?case
  proof (cases "map_of ch ''alternatives''")
    case None
    then show ?thesis by simp
  next
    case (Some alts)
    with 2 have "alternatives_lack_transcript alts" by simp
    from alternatives_lack_transcriptD [OF this] Some show ?thesis by simp
  qed
qed simp_all

lemma results_lack_transcriptD:
  assumes "results_lack_transcript results"
  shows "(case py_get results ''channels'' (JArr []) of
            Inl e \<Rightarrow> Inl e
          | Inr channels \<Rightarrow>
              if py_truthy channels
              then (case py_index0 channels of
                      Inl e \<Rightarrow> Inl e
                    | Inr channel \<Rightarrow>
                        (case py_get channel ''alternatives'' (JArr []) of
                           Inl e \<Rightarrow> Inl e
                         | Inr alternatives \<Rightarrow>
                             if py_truthy alternatives
                             then (case py_index0 alternatives of
                                     Inl e \<Rightarrow> Inl e
                                   | Inr alternative \<Rightarrow> py_get alternative ''transcript'' (JStr []))
                             else Inr (JStr [])))
              else Inr (JStr [])) = Inr (JStr [])"
proof -
  from assms obtain rs where rs: "results = JObj rs"
    by (cases results) auto
  show ?thesis
  proof (cases "map_of rs ''channels''")
    case None
    then show ?thesis by (simp add: rs)
  next
    case (Some chs)
    with assms rs have "channels_lack_transcript chs" by simp
    from channels_lack_transcriptD [OF this] Some show ?thesis by (simp add: rs)
  qed
qed

lemma deepgram_extract_empty:
  assumes "deepgram_no_transcript result"
  shows "deepgram_extract result = Inr (JStr [])"
proof -
  from assms obtain kv where kv: "result = JObj kv"
    by (cases result) (auto simp: deepgram_no_transcript_def)
  show ?thesis
  proof (cases "map_of kv ''results''")
    case None
    then show ?thesis by (simp add: deepgram_extract_def kv)
  next
    case (Some res)
    with assms kv have "results_lack_transcript res"
      by (simp add: deepgram_no_transcript_def)
    from results_lack_transcriptD [OF this] Some show ?thesis
      by (simp add: deepgram_extract_def kv)
  qed
qed

lemma groq_get_empty:
  "groq_no_transcript result \<Longrightarrow> py_get result ''text'' (JStr []) = Inr (JStr [])"
  unfolding groq_no_transcript_def by (auto split: json.splits)

text \<open>
  C10. A 200 answer whose JSON body has no transcript (Groq: no field \<open>text\<close>;
  Deepgram: one of the fields \<open>results\<close>, \<open>channels\<close>, \<open>alternatives\<close>, \<open>transcript\<close> is
  absent on the path to the transcript, or the list of channels or of alternatives is
  empty) makes \<^verbatim>\<open>transcribe\<close> return the empty string, and the endpoint answer
  \<open>{"text": ""}\<close>.
\<close>

theorem missing_transcript_is_empty_text:
  fixes h :: host and st :: io and upload :: UploadFile
    and gself :: GroqProvider and dself :: DeepgramProvider
  defines "filename \<equiv> or_default (upload_filename upload) ''audio.wav''"
    and "ctype \<equiv> or_default (upload_content_type upload) ''audio/wav''"
  defines "greq \<equiv> groq_request gself (upload_content upload) filename ctype"
    and "dreq \<equiv> deepgram_request dself (upload_content upload) ctype"
  shows
    "(network h (trace st) greq = Inr r \<and> status_code r = 200
        \<and> response_json r = Some result \<and> groq_no_transcript result
      \<longrightarrow> groq_transcribe h gself (upload_content upload) filename ctype st =
            (Inr (JStr []), st\<lparr>trace := trace st @ [Send greq]\<rparr>)
        \<and> create_transcription h (Some (groq_provider gself)) upload st =
            Some (Inr (JObj [(''text'', JStr [])]), st\<lparr>trace := trace st @ [Send greq]\<rparr>))
     \<and> (network h (trace st) dreq = Inr r \<and> status_code r = 200
        \<and> response_json r = Some result \<and> deepgram_no_transcript result
      \<longrightarrow> deepgram_transcribe h dself (upload_content upload) filename ctype st =
            (Inr (JStr []), st\<lparr>trace := trace st @ [Send dreq]\<rparr>)
        \<and> create_transcription h (Some (deepgram_provider dself)) upload st =
            Some (Inr (JObj [(''text'', JStr [])]), st\<lparr>trace := trace st @ [Send dreq]\<rparr>))"
proof (intro conjI impI; elim conjE)
  assume a: "network h (trace st) greq = Inr r" "status_code r = 200"
    "response_json r = Some result" "groq_no_transcript result"
  show g: "groq_transcribe h gself (upload_content upload) filename ctype st =
            (Inr (JStr []), st\<lparr>trace := trace st @ [Send greq]\<rparr>)"
    using a(1-3) groq_get_empty [OF a(4)]
    by (simp add: groq_transcribe_def http_send_def greq_def)
  show "create_transcription h (Some (groq_provider gself)) upload st =
            Some (Inr (JObj [(''text'', JStr [])]), st\<lparr>trace := trace st @ [Send greq]\<rparr>)"
    using g by (simp add: create_transcription_def groq_provider_def filename_def ctype_def)
next
  assume a: "network h (trace st) dreq = Inr r" "status_code r = 200"
    "response_json r = Some result" "deepgram_no_transcript result"
  show d: "deepgram_transcribe h dself (upload_content upload) filename ctype st =
            (Inr (JStr []), st\<lparr>trace := trace st @ [Send dreq]\<rparr>)"
    using a(1-3) deepgram_extract_empty [OF a(4)]
    by (simp add: deepgram_transcribe_def http_send_def dreq_def)
  show "create_transcription h (Some (deepgram_provider dself)) upload st =
            Some (Inr (JObj [(''text'', JStr [])]), st\<lparr>trace := trace st @ [Send dreq]\<rparr>)"
    using d by (simp add: create_transcription_def deepgram_provider_def filename_def ctype_def)
qed

theorem missing_transcript_is_empty_text_witness:
  "groq_no_transcript groq_no_field \<and> groq_no_transcript groq_empty
   \<and> deepgram_no_transcript deepgram_empty
   \<and> deepgram_no_transcript deepgram_no_channels_field
   \<and> deepgram_no_transcript deepgram_no_channels
   \<and> deepgram_no_transcript deepgram_no_alternatives_field
   \<and> deepgram_no_transcript deepgram_no_alternatives
   \<and> deepgram_no_transcript deepgram_no_field
   \<and> map_option fst (create_transcription (host_answering (json_response 200 groq_no_field))
        (Some (groq_provider demo_groq)) demo_upload io0) = Some (Inr (JObj [(''text'', JStr [])]))
   \<and> map_option fst (create_transcription (host_answering (json_response 200 groq_empty))
        (Some (groq_provider demo_groq)) demo_upload io0) = Some (Inr (JObj [(''text'', JStr [])]))
   \<and> map_option fst (create_transcription (host_answering (json_response 200 deepgram_empty))
        (Some (deepgram_provider demo_deepgram)) demo_upload io0) = Some (Inr (JObj [(''text'', JStr [])]))
   \<and> map_option fst (create_transcription (host_answering (json_response 200 deepgram_no_channels_field))
        (Some (deepgram_provider demo_deepgram)) demo_upload io0) = Some (Inr (JObj [(''text'', JStr [])]))
   \<and> map_option fst (create_transcription (host_answering (json_response 200 deepgram_no_channels))
        (Some (deepgram_provider demo_deepgram)) demo_upload io0) = Some (Inr (JObj [(''text'', JStr [])]))
   \<and> map_option fst (create_transcription (host_answering (json_response 200 deepgram_no_alternatives_field))
        (Some (deepgram_provider demo_deepgram)) demo_upload io0) = Some (Inr (JObj [(''text'', JStr [])]))
   \<and> map_option fst (create_transcription (host_answering (json_response 200 deepgram_no_alternatives))
        (Some (deepgram_provider demo_deepgram)) demo_upload io0) = Some (Inr (JObj [(''text'', JStr [])]))
   \<and> map_option fst (create_transcription (host_answering (json_response 200 deepgram_no_field))
        (Some (deepgram_provider demo_deepgram)) demo_upload io0) = Some (Inr (JObj [(''text'', JStr [])]))"
proof -
  have shapes: "groq_no_transcript groq_no_field" "groq_no_transcript groq_empty"
    "deepgram_no_transcript deepgram_empty" "deepgram_no_transcript deepgram_no_channels_field"
    "deepgram_no_transcript deepgram_no_channels" "deepgram_no_transcript deepgram_no_alternatives_field"
    "deepgram_no_transcript deepgram_no_alternatives" "deepgram_no_transcript deepgram_no_field"
    by (simp_all add: groq_no_transcript_def deepgram_no_transcript_def groq_no_field_def groq_empty_def
        deepgram_empty_def deepgram_no_channels_field_def deepgram_no_channels_def
        deepgram_no_alternatives_field_def deepgram_no_alternatives_def deepgram_no_field_def)
  have resp: "status_code (json_response 200 body) = 200" "response_json (json_response 200 body) = Some body"
    for body
    by (simp_all add: json_response_def)
  note t = missing_transcript_is_empty_text [where st = io0 and upload = demo_upload
      and gself = demo_groq and dself = demo_deepgram]
  have run: "map_option fst (create_transcription (host_answering (json_response 200 body))
        (Some (groq_provider demo_groq)) demo_upload io0) = Some (Inr (JObj [(''text'', JStr [])]))"
    if "groq_no_transcript body" for body
    using that resp t [where h = "host_answering (json_response 200 body)"
        and r = "json_response 200 body" and result = body]
    by (simp add: host_answering_network)
  have drun: "map_option fst (create_transcription (host_answering (json_response 200 body))
        (Some (deepgram_provider demo_deepgram)) demo_upload io0) = Some (Inr (JObj [(''text'', JStr [])]))"
    if "deepgram_no_transcript body" for body
    using that resp t [where h = "host_answering (json_response 200 body)"
        and r = "json_response 200 body" and result = body]
    by (simp add: host_answering_network)
  from shapes run [OF shapes(1)] run [OF shapes(2)] drun [OF shapes(3)] drun [OF shapes(4)]
    drun [OF shapes(5)] drun [OF shapes(6)] drun [OF shapes(7)] drun [OF shapes(8)]
  show ?thesis by simp
qed

end
